theory Spec2Isabelle
  imports Complex_Main
begin

section \<open>Numbers and vectors\<close>

text \<open>
  The kernel of \<^verbatim>\<open>yocto_geometry.h\<close> computes on \<^verbatim>\<open>float\<close>, and two models of a
  float are used below.

  The solvers for points, lines, cylinders, triangles and quads, the cone sampler and the
  distance tests are modelled on reals: a finite float is a \<^typ>\<open>real\<close>, and rounding,
  overflow and the sign of zero are not part of that model. Where the source divides by a
  value that is zero, IEEE arithmetic goes on with an infinity or a NaN, and the model's
  run ends (\<open>NonFinite\<close>).

  The slab test, the sphere solver and the test of a cone against a box are modelled on
  single-precision values (\<open>f32\<close>, in the section on single precision): every operation
  rounds to the nearest float, overflows to an infinity and propagates NaN as IEEE 754
  says, so what these functions return on a rounded sum, on \<open>1 / 0\<close> and on \<open>0 * inf\<close> is
  part of the model.
\<close>

datatype 'a vec3 = Vec3 (vx: 'a) (vy: 'a) (vz: 'a)

type_synonym vec3f = "real vec3"

type_synonym vec2f = "real \<times> real"

text \<open>Modelled from the spec: the largest finite float of the vector library
  (\<^verbatim>\<open>flt_max\<close> of \<^verbatim>\<open>yocto_math.h\<close>, which is not among the sources).\<close>

definition flt_max :: real where
  "flt_max = (2 ^ 24 - 1) * 2 ^ 104"

definition ray_eps :: real where
  "ray_eps = 1 / 10000"

text \<open>The vector library the kernel consumes (\<^verbatim>\<open>yocto_math.h\<close>) is not among the
  sources; the spec names its operations (dot, cross, normalize, clamp, min, max over float
  vectors), and each one used is modelled below with its usual meaning.\<close>

text \<open>Modelled from the spec: the componentwise sum \<^verbatim>\<open>a + b\<close> of two vectors.\<close>

definition vadd :: "vec3f \<Rightarrow> vec3f \<Rightarrow> vec3f" where
  "vadd a b = Vec3 (vx a + vx b) (vy a + vy b) (vz a + vz b)"

text \<open>Modelled from the spec: the componentwise difference \<^verbatim>\<open>a - b\<close> of two vectors.\<close>

definition vsub :: "vec3f \<Rightarrow> vec3f \<Rightarrow> vec3f" where
  "vsub a b = Vec3 (vx a - vx b) (vy a - vy b) (vz a - vz b)"

text \<open>Modelled from the spec: the negation \<^verbatim>\<open>-a\<close> of a vector.\<close>

definition vneg :: "vec3f \<Rightarrow> vec3f" where
  "vneg a = Vec3 (- vx a) (- vy a) (- vz a)"

text \<open>Modelled from the spec: the product \<^verbatim>\<open>a * s\<close> (and \<^verbatim>\<open>s * a\<close>) of a vector
  and a scalar.\<close>

definition vscale :: "vec3f \<Rightarrow> real \<Rightarrow> vec3f" where
  "vscale a s = Vec3 (vx a * s) (vy a * s) (vz a * s)"

text \<open>Modelled from the spec: the sum \<^verbatim>\<open>a + s\<close> of a vector and a scalar, which adds
  the scalar to every component.\<close>

definition vadds :: "vec3f \<Rightarrow> real \<Rightarrow> vec3f" where
  "vadds a s = Vec3 (vx a + s) (vy a + s) (vz a + s)"

text \<open>Modelled from the spec: the dot product \<^verbatim>\<open>dot(a, b)\<close>.\<close>

definition dot :: "vec3f \<Rightarrow> vec3f \<Rightarrow> real" where
  "dot a b = vx a * vx b + vy a * vy b + vz a * vz b"

text \<open>Modelled from the spec: the cross product \<^verbatim>\<open>cross(a, b)\<close>.\<close>

definition cross :: "vec3f \<Rightarrow> vec3f \<Rightarrow> vec3f" where
  "cross a b = Vec3 (vy a * vz b - vz a * vy b) (vz a * vx b - vx a * vz b)
     (vx a * vy b - vy a * vx b)"

text \<open>Modelled from the spec: the Euclidean length \<^verbatim>\<open>length(a)\<close>.\<close>

definition vlength :: "vec3f \<Rightarrow> real" where
  "vlength a = sqrt (dot a a)"

text \<open>Modelled from the spec: \<^verbatim>\<open>normalize(a)\<close>, the vector over its length; a
  vector of length zero is returned as it is.\<close>

definition normalize :: "vec3f \<Rightarrow> vec3f" where
  "normalize a = (let l = vlength a in if l \<noteq> 0 then vscale a (1 / l) else a)"

text \<open>Modelled from the spec: the componentwise maximum \<^verbatim>\<open>max(a, b)\<close> of two
  vectors.\<close>

definition vmax :: "vec3f \<Rightarrow> vec3f \<Rightarrow> vec3f" where
  "vmax a b = Vec3 (max (vx a) (vx b)) (max (vy a) (vy b)) (max (vz a) (vz b))"

text \<open>Modelled from the spec: \<^verbatim>\<open>clamp(a, lo, hi)\<close>.\<close>

definition clamp :: "real \<Rightarrow> real \<Rightarrow> real \<Rightarrow> real" where
  "clamp a lo hi = min (max a lo) hi"

section \<open>Boxes, rays and cones\<close>

text \<open>The structures of the source, with the type of their numbers as a parameter:
  \<^verbatim>\<open>bbox3f\<close>, \<^verbatim>\<open>ray3f\<close> and \<^verbatim>\<open>cone_data\<close> are the ones on reals, and
  \<open>bbox3s\<close>, \<open>ray3s\<close> and \<open>cone_s\<close> the ones on single-precision values.\<close>

record 'a bbox3 =
  bmin :: "'a vec3"
  bmax :: "'a vec3"

type_synonym bbox3f = "real bbox3"

record 'a ray3 =
  ray_o :: "'a vec3"
  ray_d :: "'a vec3"
  ray_tmin :: 'a
  ray_tmax :: 'a

type_synonym ray3f = "real ray3"

record 'a cone3 =
  origin :: "'a vec3"
  dir :: "'a vec3"
  spread :: 'a
  cone_tmin :: 'a
  cone_tmax :: 'a

type_synonym cone_data = "real cone3"

text \<open>The aggregate initialisation \<^verbatim>\<open>ray3f{o, d}\<close> leaves \<^verbatim>\<open>tmin\<close> and
  \<^verbatim>\<open>tmax\<close> at their defaults.\<close>

definition ray3f_od :: "vec3f \<Rightarrow> vec3f \<Rightarrow> ray3f" where
  "ray3f_od p q = \<lparr>ray_o = p, ray_d = q, ray_tmin = ray_eps, ray_tmax = flt_max\<rparr>"

section \<open>Ray against primitive\<close>

text \<open>The result of a solver: \<open>Hit\<close> holds what it writes to \<^verbatim>\<open>uv\<close> and
  \<^verbatim>\<open>dist\<close> before \<^verbatim>\<open>return true\<close>; on \<open>Miss\<close> (\<^verbatim>\<open>return false\<close>) the
  outputs are as they were. \<open>NonFinite\<close>: the source divides by zero here and goes on
  with an infinity or a NaN, which the model does not follow.\<close>

datatype 'a outcome = NonFinite | Miss | Hit 'a

definition intersect_point :: "ray3f \<Rightarrow> vec3f \<Rightarrow> real \<Rightarrow> (vec2f \<times> real) outcome" where
  "intersect_point ray p r =
     (let w = vsub p (ray_o ray) in
      if dot (ray_d ray) (ray_d ray) = 0 then NonFinite
      else
        (let t = dot w (ray_d ray) / dot (ray_d ray) (ray_d ray) in
         if t < ray_tmin ray \<or> t > ray_tmax ray then Miss
         else
           (let rp = vadd (ray_o ray) (vscale (ray_d ray) t);
                prp = vsub p rp
            in if dot prp prp > r * r then Miss else Hit ((0, 0), t))))"

text \<open>The comparison \<^verbatim>\<open>equal(ln, 0.0f)\<close> is declared outside the sources: it is the
  parameter \<open>equal_flt\<close>. The solver returns the pair \<^verbatim>\<open>(*inD, *outD)\<close>; the
  source's vector \<^verbatim>\<open>O\<close> is \<open>Ovec\<close>.\<close>

definition intersect_infinite_cylinder ::
  "(real \<Rightarrow> real \<Rightarrow> bool) \<Rightarrow> ray3f \<Rightarrow> vec3f \<Rightarrow> vec3f \<Rightarrow> real \<Rightarrow> vec3f \<Rightarrow> (real \<times> real) outcome"
where
  "intersect_infinite_cylinder equal_flt ray p0 p1 radius axis =
     (let r_c = vsub (ray_o ray) p0;
          r_2 = radius * radius;
          n = cross (ray_d ray) axis;
          ln = vlength n
      in if equal_flt ln 0 then
           (if vlength (vsub r_c (vscale axis (dot r_c axis))) \<le> radius
            then Hit (- (10 ^ 21), 10 ^ 21) else Miss)
         else
           (let n = normalize n;
                d = \<bar>dot r_c n\<bar>
            in if d \<le> radius then
                 (let Ovec = cross r_c axis in
                  if ln = 0 then NonFinite
                  else
                    (let t = - dot Ovec n / ln;
                         Ovec = normalize (cross n axis)
                     in if dot (ray_d ray) Ovec = 0 then NonFinite
                        else
                          (let s = \<bar>sqrt (r_2 - d * d) / dot (ray_d ray) Ovec\<bar>
                           in Hit (t - s, t + s))))
               else Miss))"

text \<open>One end-cap plane against the interval \<^verbatim>\<open>[inD, outD]\<close>; the source has this
  block twice, for the base (\<open>cap = 2\<close>) and for the top (\<open>cap = 0\<close>). The state is
  \<^verbatim>\<open>(inD, outD, sideIn, sideOut)\<close>, and \<open>None\<close> is \<^verbatim>\<open>return false\<close>.\<close>

definition clip_cap ::
  "real \<Rightarrow> real \<Rightarrow> nat \<Rightarrow> real \<times> real \<times> nat \<times> nat \<Rightarrow> (real \<times> real \<times> nat \<times> nat) option"
where
  "clip_cap dc dw cap st =
     (case st of (inD, outD, sideIn, sideOut) \<Rightarrow>
        if dc = 0 then (if dw \<ge> 0 then None else Some st)
        else
          (let t = - dw / dc in
           if dc \<ge> 0 then
             (let st' = (if t > inD \<and> t < outD then (inD, t, sideIn, cap) else st)
              in if t < inD then None else Some st')
           else
             (let st' = (if t > inD \<and> t < outD then (t, outD, cap, sideOut) else st)
              in if t > outD then None else Some st')))"

definition intersect_cylinder ::
  "(real \<Rightarrow> real \<Rightarrow> bool) \<Rightarrow> ray3f \<Rightarrow> vec3f \<Rightarrow> vec3f \<Rightarrow> real \<Rightarrow> real \<Rightarrow> (vec2f \<times> real) outcome"
where
  "intersect_cylinder equal_flt ray p0 p1 r0 r1 =
     (let axis = normalize (vsub p1 p0);
          baseDistance = - dot (vneg axis) p0;
          topDistance = - dot axis p1
      in case intersect_infinite_cylinder equal_flt ray p0 p1 r0 axis of
           NonFinite \<Rightarrow> NonFinite
         | Miss \<Rightarrow> Miss
         | Hit (inD, outD) \<Rightarrow>
             (case clip_cap (dot (vneg axis) (ray_d ray))
                     (dot (vneg axis) (ray_o ray) + baseDistance) 2 (inD, outD, 1, 1) of
                None \<Rightarrow> Miss
              | Some st \<Rightarrow>
                  (case clip_cap (dot axis (ray_d ray))
                          (dot axis (ray_o ray) + topDistance) 0 st of
                     None \<Rightarrow> Miss
                   | Some (inD, outD, sideIn, sideOut) \<Rightarrow>
                       if inD < 0 \<and> outD < 0 then Miss
                       else
                         (case (if inD < outD \<and> inD > 0 then Some (inD, sideIn, True)
                                else if outD > 0 then Some (outD, sideOut, False)
                                else None) of
                            None \<Rightarrow> Miss
                          | Some (t, side, entering) \<Rightarrow>
                              (let point = vadd (ray_o ray) (vscale (ray_d ray) t);
                                   u = ray_d ray;
                                   v = vsub p1 p0;
                                   w = vsub (ray_o ray) p0;
                                   a = dot u u;
                                   b = dot u v;
                                   c = dot v v;
                                   d = dot u w;
                                   e = dot v w;
                                   det = a * c - b * b
                               in if det = 0 then NonFinite
                                  else
                                    (let t' = (b * e - c * d) / det;
                                         s = (a * e - b * d) / det
                                     in if t' < ray_tmin ray \<or> t' > ray_tmax ray then Miss
                                        else
                                          (let s = clamp s 0 1
                                           in Hit ((s, 0), t))))))))"

definition intersect_line ::
  "ray3f \<Rightarrow> vec3f \<Rightarrow> vec3f \<Rightarrow> real \<Rightarrow> real \<Rightarrow> (vec2f \<times> real) outcome"
where
  "intersect_line ray p0 p1 r0 r1 =
     (let u = ray_d ray;
          v = vsub p1 p0;
          w = vsub (ray_o ray) p0;
          a = dot u u;
          b = dot u v;
          c = dot v v;
          d = dot u w;
          e = dot v w;
          det = a * c - b * b
      in if det = 0 then Miss
         else
           (let t = (b * e - c * d) / det;
                s = (a * e - b * d) / det
            in if t < ray_tmin ray \<or> t > ray_tmax ray then Miss
               else
                 (let s = clamp s 0 1;
                      pr = vadd (ray_o ray) (vscale (ray_d ray) t);
                      pl = vadd p0 (vscale (vsub p1 p0) s);
                      prl = vsub pr pl;
                      d2 = dot prl prl;
                      r = r0 * (1 - s) + r1 * s
                  in if d2 > r * r then Miss else Hit ((s, 0), t))))"

definition intersect_triangle ::
  "ray3f \<Rightarrow> vec3f \<Rightarrow> vec3f \<Rightarrow> vec3f \<Rightarrow> (vec2f \<times> real) outcome"
where
  "intersect_triangle ray p0 p1 p2 =
     (let edge1 = vsub p1 p0;
          edge2 = vsub p2 p0;
          pvec = cross (ray_d ray) edge2;
          det = dot edge1 pvec
      in if det = 0 then Miss
         else
           (let inv_det = 1 / det;
                tvec = vsub (ray_o ray) p0;
                u = dot tvec pvec * inv_det
            in if u < 0 \<or> u > 1 then Miss
               else
                 (let qvec = cross tvec edge1;
                      v = dot (ray_d ray) qvec * inv_det
                  in if v < 0 \<or> u + v > 1 then Miss
                     else
                       (let t = dot edge2 qvec * inv_det
                        in if t < ray_tmin ray \<or> t > ray_tmax ray then Miss
                           else Hit ((u, v), t)))))"

text \<open>\<^verbatim>\<open>ray_point\<close> and \<^verbatim>\<open>triangle_point\<close>: the point of a ray at a parameter and
  the point of a triangle at a pair of barycentric parameters.\<close>

definition ray_point :: "ray3f \<Rightarrow> real \<Rightarrow> vec3f" where
  "ray_point ray t = vadd (ray_o ray) (vscale (ray_d ray) t)"

definition triangle_point :: "vec3f \<Rightarrow> vec3f \<Rightarrow> vec3f \<Rightarrow> vec2f \<Rightarrow> vec3f" where
  "triangle_point p0 p1 p2 uv =
     vadd (vadd (vscale p0 (1 - fst uv - snd uv)) (vscale p1 (fst uv))) (vscale p2 (snd uv))"

text \<open>\<^verbatim>\<open>uv = 1 - uv\<close>.\<close>

definition one_minus :: "vec2f \<Rightarrow> vec2f" where
  "one_minus uv = (1 - fst uv, 1 - snd uv)"

definition intersect_quad ::
  "ray3f \<Rightarrow> vec3f \<Rightarrow> vec3f \<Rightarrow> vec3f \<Rightarrow> vec3f \<Rightarrow> (vec2f \<times> real) outcome"
where
  "intersect_quad ray p0 p1 p2 p3 =
     (if p2 = p3 then intersect_triangle ray p0 p1 p3
      else
        (let first = intersect_triangle ray p0 p1 p3;
             tray = (case first of Hit (uv, dist') \<Rightarrow> ray\<lparr>ray_tmax := dist'\<rparr> | _ \<Rightarrow> ray)
         in case intersect_triangle tray p2 p3 p1 of
              Hit (uv, dist') \<Rightarrow> Hit (one_minus uv, dist')
            | _ \<Rightarrow> first))"

section \<open>Cone against primitive\<close>

text \<open>\<^verbatim>\<open>N_CONE_POINTS\<close> is declared outside the sources. Its value is a sample count;
  whether it is an integer or a floating constant decides how C++ divides in
  \<^verbatim>\<open>nPoints / N_CONE_POINTS\<close>, so the parameter says which.\<close>

datatype n_cone_points = IntPoints nat | FloatPoints nat

fun n_points :: "n_cone_points \<Rightarrow> nat" where
  "n_points (IntPoints n) = n"
| "n_points (FloatPoints n) = n"

text \<open>\<^verbatim>\<open>float areaFraction = nPoints / N_CONE_POINTS\<close>.\<close>

fun area_fraction :: "nat \<Rightarrow> n_cone_points \<Rightarrow> real" where
  "area_fraction k (IntPoints n) = real (k div n)"
| "area_fraction k (FloatPoints n) = real k / real n"

record sampler =
  uv_list :: "vec2f list"
  minDistance :: real
  t_dist :: real
  nPoints :: nat

datatype cone_result = ConeNonFinite | ConeMiss "vec2f list" | ConeHit "vec2f list" real

text \<open>The radius \<^verbatim>\<open>r\<close> of sample \<open>i\<close> on the spiral.\<close>

definition spiral_r :: "n_cone_points \<Rightarrow> nat \<Rightarrow> real" where
  "spiral_r N i =
     (if i > n_points N then 1
      else sqrt (real i - 1 / 2) / sqrt (real (n_points N) - 1 / 2))"

text \<open>The direction from the cone origin toward the point of sample \<open>i\<close> on the disc, as
  the loop computes it: \<^verbatim>\<open>theta\<close>, \<^verbatim>\<open>point\<close> and \<^verbatim>\<open>direction\<close>.\<close>

definition sample_direction ::
  "n_cone_points \<Rightarrow> cone_data \<Rightarrow> vec3f \<Rightarrow> real \<Rightarrow> vec3f \<Rightarrow> vec3f \<Rightarrow> nat \<Rightarrow> vec3f"
where
  "sample_direction N cone coneCircleV coneCircleR planeXAxis planeYAxis i =
     (let phi = (sqrt 5 + 1) * (1 / 2);
          phi = phi * phi;
          r = spiral_r N i;
          theta = 2 * pi * real i / phi;
          point = vadd coneCircleV
                    (vadd (vscale (vscale (vscale planeXAxis coneCircleR) r) (cos theta))
                          (vscale (vscale (vscale planeYAxis coneCircleR) r) (sin theta)))
      in normalize (vsub point (origin cone)))"

text \<open>The body of the sampling loop, the same in the five overloads but for the solver it
  calls: \<open>test r\<close> is that call, which gets the spiral radius \<open>r\<close> of the sample. The
  loop assigns \<^verbatim>\<open>direction\<close> and does not read it.\<close>

definition cone_step ::
  "n_cone_points \<Rightarrow> (real \<Rightarrow> (vec2f \<times> real) outcome) \<Rightarrow> cone_data \<Rightarrow> vec3f \<Rightarrow> real \<Rightarrow> vec3f \<Rightarrow> vec3f
     \<Rightarrow> nat \<Rightarrow> sampler \<Rightarrow> sampler option"
where
  "cone_step N test cone coneCircleV coneCircleR planeXAxis planeYAxis i st =
     (let r = spiral_r N i;
          direction = sample_direction N cone coneCircleV coneCircleR planeXAxis planeYAxis i
      in case test r of
           NonFinite \<Rightarrow> None
         | Miss \<Rightarrow> Some st
         | Hit (uv', t) \<Rightarrow>
             Some (st\<lparr>uv_list := uv_list st @ [uv'],
                      minDistance := (if minDistance st > t then t else minDistance st),
                      t_dist := t,
                      nPoints := nPoints st + 1\<rparr>))"

text \<open>\<^verbatim>\<open>for (int i = 1; i <= N_CONE_POINTS; i++)\<close>, with \<open>k\<close> iterations left.\<close>

fun cone_loop ::
  "n_cone_points \<Rightarrow> (real \<Rightarrow> (vec2f \<times> real) outcome) \<Rightarrow> cone_data \<Rightarrow> vec3f \<Rightarrow> real \<Rightarrow> vec3f \<Rightarrow> vec3f
     \<Rightarrow> nat \<Rightarrow> nat \<Rightarrow> sampler \<Rightarrow> sampler option"
where
  "cone_loop N test cone V R X Y i 0 st = Some st"
| "cone_loop N test cone V R X Y i (Suc k) st =
     (case cone_step N test cone V R X Y i st of
        None \<Rightarrow> None
      | Some st' \<Rightarrow> cone_loop N test cone V R X Y (Suc i) k st')"

definition cone_decide :: "n_cone_points \<Rightarrow> sampler \<Rightarrow> cone_result" where
  "cone_decide N st =
     (let areaFraction = area_fraction (nPoints st) N in
      if areaFraction \<le> 3 / 10 then ConeMiss (uv_list st)
      else if t_dist st \<noteq> - 1 then ConeHit (uv_list st) (t_dist st)
      else ConeMiss (uv_list st))"

text \<open>\<^verbatim>\<open>coneCircleR\<close>, the radius of the disc with the center \<^verbatim>\<open>coneCircleV\<close>, and
  \<^verbatim>\<open>planeXAxis\<close>, \<^verbatim>\<open>planeYAxis\<close>, the coordinate system of its plane.\<close>

definition coneCircleR :: "cone_data \<Rightarrow> vec3f \<Rightarrow> real" where
  "coneCircleR cone coneCircleV = vlength (vsub coneCircleV (origin cone)) * tan (spread cone)"

definition planeXAxis :: "cone_data \<Rightarrow> vec3f" where
  "planeXAxis cone = normalize (cross (Vec3 0 0 1) (vneg (dir cone)))"

definition planeYAxis :: "cone_data \<Rightarrow> vec3f" where
  "planeYAxis cone = normalize (cross (vneg (dir cone)) (planeXAxis cone))"

text \<open>What the five overloads do after they have set \<^verbatim>\<open>ray\<close> and \<^verbatim>\<open>coneCircleV\<close>: the
  disc, the loop and the decision.\<close>

definition cone_sample ::
  "n_cone_points \<Rightarrow> (real \<Rightarrow> (vec2f \<times> real) outcome) \<Rightarrow> cone_data \<Rightarrow> vec3f \<Rightarrow> vec2f list \<Rightarrow> cone_result"
where
  "cone_sample N test cone coneCircleV uv =
     (case cone_loop N test cone coneCircleV (coneCircleR cone coneCircleV)
             (planeXAxis cone) (planeYAxis cone) 1 (n_points N)
             \<lparr>uv_list = uv, minDistance = flt_max, t_dist = - 1, nPoints = 0\<rparr> of
        None \<Rightarrow> ConeNonFinite
      | Some st \<Rightarrow> cone_decide N st)"

text \<open>\<^verbatim>\<open>auto ray = ray3f{cone.origin, cone.dir}; ray.tmin = cone.tmin; ray.tmax = cone.tmax\<close>.\<close>

definition cone_ray :: "cone_data \<Rightarrow> ray3f" where
  "cone_ray cone = (ray3f_od (origin cone) (dir cone))
     \<lparr>ray_tmin := cone_tmin cone, ray_tmax := cone_tmax cone\<rparr>"

definition intersect_point_cone ::
  "n_cone_points \<Rightarrow> cone_data \<Rightarrow> vec3f \<Rightarrow> real \<Rightarrow> vec2f list \<Rightarrow> cone_result"
where
  "intersect_point_cone N cone p radius uv =
     (let ray = cone_ray cone;
          coneCircleV = vadd (origin cone)
            (vscale (dir cone) (vlength (vsub (vadds p radius) (origin cone))))
      in cone_sample N (\<lambda>r. intersect_point ray p r) cone coneCircleV uv)"

definition intersect_line_cone ::
  "n_cone_points \<Rightarrow> cone_data \<Rightarrow> vec3f \<Rightarrow> vec3f \<Rightarrow> real \<Rightarrow> real \<Rightarrow> vec2f list \<Rightarrow> cone_result"
where
  "intersect_line_cone N cone p0 p1 r0 r1 uv =
     (let ray = cone_ray cone;
          coneCircleV = vadd (origin cone)
            (vscale (dir cone) (vlength (vsub (vadds (vmax p0 p1) r0) (origin cone))))
      in cone_sample N (\<lambda>r. intersect_line ray p0 p1 r0 r1) cone coneCircleV uv)"

definition intersect_cylinder_cone ::
  "(real \<Rightarrow> real \<Rightarrow> bool) \<Rightarrow> n_cone_points \<Rightarrow> cone_data \<Rightarrow> vec3f \<Rightarrow> vec3f \<Rightarrow> real \<Rightarrow> real
     \<Rightarrow> vec2f list \<Rightarrow> cone_result"
where
  "intersect_cylinder_cone equal_flt N cone p0 p1 r0 r1 uv =
     (let ray = cone_ray cone;
          coneCircleV = vadd (origin cone)
            (vscale (dir cone) (vlength (vsub (vadds (vmax p0 p1) r0) (origin cone))))
      in cone_sample N (\<lambda>r. intersect_cylinder equal_flt ray p0 p1 r0 r1) cone coneCircleV uv)"

text \<open>\<^verbatim>\<open>coneCircleV\<close> of the triangle and the quad overloads.\<close>

definition coneCircleV_triangle :: "cone_data \<Rightarrow> vec3f \<Rightarrow> vec3f \<Rightarrow> vec3f \<Rightarrow> vec3f" where
  "coneCircleV_triangle cone p0 p1 p2 =
     vadd (origin cone)
       (vscale (dir cone) (vlength (vsub (vadd (vmax p0 p1) p2) (origin cone))))"

definition intersect_triangle_cone ::
  "n_cone_points \<Rightarrow> cone_data \<Rightarrow> vec3f \<Rightarrow> vec3f \<Rightarrow> vec3f \<Rightarrow> vec2f list \<Rightarrow> cone_result"
where
  "intersect_triangle_cone N cone p0 p1 p2 uv =
     (let ray = cone_ray cone;
          coneCircleV = coneCircleV_triangle cone p0 p1 p2
      in cone_sample N (\<lambda>r. intersect_triangle ray p0 p1 p2) cone coneCircleV uv)"

definition intersect_quad_cone ::
  "n_cone_points \<Rightarrow> cone_data \<Rightarrow> vec3f \<Rightarrow> vec3f \<Rightarrow> vec3f \<Rightarrow> vec3f \<Rightarrow> vec2f list \<Rightarrow> cone_result"
where
  "intersect_quad_cone N cone p0 p1 p2 p3 uv =
     (let ray = cone_ray cone;
          coneCircleV = coneCircleV_triangle cone p0 p1 p2
      in cone_sample N (\<lambda>r. intersect_quad ray p0 p1 p2 p3) cone coneCircleV uv)"

text \<open>The ray that the spec's sampler builds for sample \<open>i\<close>: from the cone origin toward
  the point of the sample on the disc, within the cone's bounds. The code computes its
  direction and calls the solver with \<^verbatim>\<open>ray\<close>, the axis ray, instead; this definition
  follows the spec's words, for the comparison with the code.\<close>

definition spec_sample_ray :: "n_cone_points \<Rightarrow> cone_data \<Rightarrow> vec3f \<Rightarrow> nat \<Rightarrow> ray3f" where
  "spec_sample_ray N cone coneCircleV i =
     (cone_ray cone)\<lparr>ray_d := sample_direction N cone coneCircleV
        (coneCircleR cone coneCircleV) (planeXAxis cone) (planeYAxis cone) i\<rparr>"

section \<open>Single precision\<close>

text \<open>A value of the type \<^verbatim>\<open>float\<close> (IEEE 754 binary32): a NaN, an infinity or a finite
  number. The two zeros are one value, \<open>Fin 0\<close>; where the sign of a zero matters (a
  division by it) it is the positive zero, so an input that holds a negative zero is
  outside the model.\<close>

datatype f32 = NaN | NInf | PInf | Fin real

text \<open>The exponent \<open>\<lfloor>log\<^sub>2 a\<rfloor>\<close> of a positive number, kept between \<open>-126\<close> and \<open>128\<close>: the
  floats below \<open>2 ^ -126\<close> are subnormal and have the exponent \<open>-126\<close>.\<close>

fun exp_up :: "nat \<Rightarrow> real \<Rightarrow> int" where
  "exp_up 0 a = 0"
| "exp_up (Suc n) a = (if 2 \<le> a then exp_up n (a / 2) + 1 else 0)"

fun exp_down :: "nat \<Rightarrow> real \<Rightarrow> int" where
  "exp_down 0 a = 0"
| "exp_down (Suc n) a = (if a < 1 then exp_down n (a * 2) - 1 else 0)"

definition exponent :: "real \<Rightarrow> int" where
  "exponent a = (if 1 \<le> a then exp_up 128 a else exp_down 126 a)"

text \<open>The nearest integer, a tie going to the even one.\<close>

definition round_even :: "real \<Rightarrow> int" where
  "round_even x =
     (let n = \<lfloor>x\<rfloor>; r = x - of_int n in
      if r < 1 / 2 then n else if r > 1 / 2 then n + 1 else if even n then n else n + 1)"

text \<open>The float nearest to a real number: 24 significant bits, a tie going to the even
  one, and an infinity beyond \<^verbatim>\<open>flt_max\<close>. Every operation on floats rounds its exact
  result this way.\<close>

definition round32 :: "real \<Rightarrow> f32" where
  "round32 x =
     (let q = 2 powi (exponent \<bar>x\<bar> - 23);
          y = of_int (round_even (x / q)) * q
      in if y > flt_max then PInf else if y < - flt_max then NInf else Fin y)"

text \<open>The operators \<^verbatim>\<open>-a\<close>, \<^verbatim>\<open>a + b\<close>, \<^verbatim>\<open>a - b\<close>, \<^verbatim>\<open>a * b\<close> and \<^verbatim>\<open>a / b\<close> of the
  language on floats.\<close>

fun f_neg :: "f32 \<Rightarrow> f32" where
  "f_neg (Fin a) = Fin (- a)"
| "f_neg PInf = NInf"
| "f_neg NInf = PInf"
| "f_neg NaN = NaN"

fun f_add :: "f32 \<Rightarrow> f32 \<Rightarrow> f32" where
  "f_add (Fin a) (Fin b) = round32 (a + b)"
| "f_add NaN b = NaN"
| "f_add a NaN = NaN"
| "f_add PInf NInf = NaN"
| "f_add NInf PInf = NaN"
| "f_add PInf b = PInf"
| "f_add a PInf = PInf"
| "f_add NInf b = NInf"
| "f_add a NInf = NInf"

definition f_sub :: "f32 \<Rightarrow> f32 \<Rightarrow> f32" where
  "f_sub a b = f_add a (f_neg b)"

fun f_mul :: "f32 \<Rightarrow> f32 \<Rightarrow> f32" where
  "f_mul (Fin a) (Fin b) = round32 (a * b)"
| "f_mul NaN b = NaN"
| "f_mul a NaN = NaN"
| "f_mul (Fin a) PInf = (if a = 0 then NaN else if 0 < a then PInf else NInf)"
| "f_mul (Fin a) NInf = (if a = 0 then NaN else if 0 < a then NInf else PInf)"
| "f_mul PInf (Fin b) = (if b = 0 then NaN else if 0 < b then PInf else NInf)"
| "f_mul NInf (Fin b) = (if b = 0 then NaN else if 0 < b then NInf else PInf)"
| "f_mul PInf PInf = PInf"
| "f_mul PInf NInf = NInf"
| "f_mul NInf PInf = NInf"
| "f_mul NInf NInf = PInf"

fun f_div :: "f32 \<Rightarrow> f32 \<Rightarrow> f32" where
  "f_div (Fin a) (Fin b) =
     (if b = 0 then (if a = 0 then NaN else if 0 < a then PInf else NInf)
      else round32 (a / b))"
| "f_div NaN b = NaN"
| "f_div a NaN = NaN"
| "f_div (Fin a) b = Fin 0"
| "f_div PInf (Fin b) = (if 0 \<le> b then PInf else NInf)"
| "f_div NInf (Fin b) = (if 0 \<le> b then NInf else PInf)"
| "f_div a b = NaN"

text \<open>The comparisons \<^verbatim>\<open>a < b\<close>, \<^verbatim>\<open>a > b\<close> and \<^verbatim>\<open>a <= b\<close> of the language on floats:
  false when an operand is a NaN.\<close>

fun f_lt :: "f32 \<Rightarrow> f32 \<Rightarrow> bool" where
  "f_lt (Fin a) (Fin b) = (a < b)"
| "f_lt NaN b = False"
| "f_lt a NaN = False"
| "f_lt a NInf = False"
| "f_lt PInf b = False"
| "f_lt a b = True"

definition f_gt :: "f32 \<Rightarrow> f32 \<Rightarrow> bool" where
  "f_gt a b = f_lt b a"

definition f_le :: "f32 \<Rightarrow> f32 \<Rightarrow> bool" where
  "f_le a b = (a \<noteq> NaN \<and> b \<noteq> NaN \<and> \<not> f_lt b a)"

text \<open>The functions of the vector library on floats (\<^verbatim>\<open>yocto_math.h\<close>, which is not among
  the sources) follow, each with its usual meaning in single precision.\<close>

text \<open>Modelled from the spec: the square root \<^verbatim>\<open>sqrt(a)\<close> of the vector library on a
  float, the correctly rounded square root of IEEE 754.\<close>

fun f_sqrt :: "f32 \<Rightarrow> f32" where
  "f_sqrt (Fin a) = (if a < 0 then NaN else round32 (sqrt a))"
| "f_sqrt PInf = PInf"
| "f_sqrt a = NaN"

text \<open>Modelled from the spec: the absolute value \<^verbatim>\<open>abs(a)\<close> of the vector library on a
  float, the conditional \<^verbatim>\<open>a < 0 ? -a : a\<close>.\<close>

definition f_abs :: "f32 \<Rightarrow> f32" where
  "f_abs a = (if f_lt a (Fin 0) then f_neg a else a)"

text \<open>Modelled from the spec: the minimum \<^verbatim>\<open>min(a, b)\<close> of the vector library on two
  floats, the conditional \<^verbatim>\<open>(a < b) ? a : b\<close>; a comparison with a NaN is false, so
  \<open>b\<close> is returned then.\<close>

definition f_min :: "f32 \<Rightarrow> f32 \<Rightarrow> f32" where
  "f_min a b = (if f_lt a b then a else b)"

text \<open>Modelled from the spec: the maximum \<^verbatim>\<open>max(a, b)\<close> of the vector library on two
  floats, the conditional \<^verbatim>\<open>(a > b) ? a : b\<close>; a comparison with a NaN is false, so
  \<open>b\<close> is returned then.\<close>

definition f_max :: "f32 \<Rightarrow> f32 \<Rightarrow> f32" where
  "f_max a b = (if f_gt a b then a else b)"

text \<open>Modelled from the spec: \<^verbatim>\<open>clamp(a, lo, hi)\<close> of the vector library on floats,
  \<^verbatim>\<open>min(max(a, lo), hi)\<close>.\<close>

definition f_clamp :: "f32 \<Rightarrow> f32 \<Rightarrow> f32 \<Rightarrow> f32" where
  "f_clamp a lo hi = f_min (f_max a lo) hi"

text \<open>Modelled from the spec: the constant \<^verbatim>\<open>pif\<close> of the vector library, the float
  nearest to \<open>\<pi>\<close>.\<close>

definition pif :: f32 where
  "pif = Fin (13176795 / 2 ^ 22)"

text \<open>The exact value of the C library's \<^verbatim>\<open>atan2\<close> on finite arguments.\<close>

definition atan2 :: "real \<Rightarrow> real \<Rightarrow> real" where
  "atan2 b a =
     (if 0 < a then arctan (b / a)
      else if a < 0 then (if 0 \<le> b then arctan (b / a) + pi else arctan (b / a) - pi)
      else if 0 < b then pi / 2
      else if b < 0 then - (pi / 2)
      else 0)"

text \<open>Modelled from the spec: \<^verbatim>\<open>atan2(b, a)\<close> of the vector library on floats, the C
  library's function, with its values at the infinities. The C library promises its
  own accuracy only; here the result is the float nearest to the exact value, and it is
  exact where a statement below depends on it (\<open>atan2(0, 0) = 0\<close>).\<close>

fun f_atan2 :: "f32 \<Rightarrow> f32 \<Rightarrow> f32" where
  "f_atan2 (Fin b) (Fin a) = round32 (atan2 b a)"
| "f_atan2 NaN a = NaN"
| "f_atan2 b NaN = NaN"
| "f_atan2 (Fin b) PInf = Fin 0"
| "f_atan2 (Fin b) NInf = (if 0 \<le> b then round32 pi else round32 (- pi))"
| "f_atan2 PInf (Fin a) = round32 (pi / 2)"
| "f_atan2 NInf (Fin a) = round32 (- (pi / 2))"
| "f_atan2 PInf PInf = round32 (pi / 4)"
| "f_atan2 PInf NInf = round32 (3 * pi / 4)"
| "f_atan2 NInf PInf = round32 (- (pi / 4))"
| "f_atan2 NInf NInf = round32 (- (3 * pi / 4))"

text \<open>Modelled from the spec: \<^verbatim>\<open>acos(a)\<close> of the vector library on a float, the C
  library's function, as the float nearest to the exact value (exact at \<open>acos(1) = 0\<close>).\<close>

fun f_acos :: "f32 \<Rightarrow> f32" where
  "f_acos (Fin a) = (if - 1 \<le> a \<and> a \<le> 1 then round32 (arccos a) else NaN)"
| "f_acos a = NaN"

text \<open>Modelled from the spec: \<^verbatim>\<open>cos(a)\<close> of the vector library on a float, the C
  library's function, as the float nearest to the exact value.\<close>

fun f_cos :: "f32 \<Rightarrow> f32" where
  "f_cos (Fin a) = round32 (cos a)"
| "f_cos a = NaN"

type_synonym vec3s = "f32 vec3"

type_synonym bbox3s = "f32 bbox3"

type_synonym ray3s = "f32 ray3"

type_synonym cone_s = "f32 cone3"

text \<open>Modelled from the spec: the componentwise sum \<^verbatim>\<open>a + b\<close> of two float vectors.\<close>

definition f_vadd :: "vec3s \<Rightarrow> vec3s \<Rightarrow> vec3s" where
  "f_vadd a b = Vec3 (f_add (vx a) (vx b)) (f_add (vy a) (vy b)) (f_add (vz a) (vz b))"

text \<open>Modelled from the spec: the componentwise difference \<^verbatim>\<open>a - b\<close> of two float
  vectors.\<close>

definition f_vsub :: "vec3s \<Rightarrow> vec3s \<Rightarrow> vec3s" where
  "f_vsub a b = Vec3 (f_sub (vx a) (vx b)) (f_sub (vy a) (vy b)) (f_sub (vz a) (vz b))"

text \<open>Modelled from the spec: the componentwise product \<^verbatim>\<open>a * b\<close> of two float
  vectors.\<close>

definition f_vmul :: "vec3s \<Rightarrow> vec3s \<Rightarrow> vec3s" where
  "f_vmul a b = Vec3 (f_mul (vx a) (vx b)) (f_mul (vy a) (vy b)) (f_mul (vz a) (vz b))"

text \<open>Modelled from the spec: the product \<^verbatim>\<open>a * s\<close> of a float vector and a float.\<close>

definition f_vscale :: "vec3s \<Rightarrow> f32 \<Rightarrow> vec3s" where
  "f_vscale a s = Vec3 (f_mul (vx a) s) (f_mul (vy a) s) (f_mul (vz a) s)"

text \<open>Modelled from the spec: the quotient \<^verbatim>\<open>a / s\<close> of a float vector and a float.\<close>

definition f_vdivs :: "vec3s \<Rightarrow> f32 \<Rightarrow> vec3s" where
  "f_vdivs a s = Vec3 (f_div (vx a) s) (f_div (vy a) s) (f_div (vz a) s)"

text \<open>Modelled from the spec: the componentwise reciprocal \<^verbatim>\<open>1.0f / a\<close> of a float
  vector.\<close>

definition f_vrecip :: "vec3s \<Rightarrow> vec3s" where
  "f_vrecip a = Vec3 (f_div (Fin 1) (vx a)) (f_div (Fin 1) (vy a)) (f_div (Fin 1) (vz a))"

text \<open>Modelled from the spec: the dot product \<^verbatim>\<open>dot(a, b)\<close> of two float vectors,
  \<^verbatim>\<open>a.x * b.x + a.y * b.y + a.z * b.z\<close>, summed from the left.\<close>

definition f_dot :: "vec3s \<Rightarrow> vec3s \<Rightarrow> f32" where
  "f_dot a b = f_add (f_add (f_mul (vx a) (vx b)) (f_mul (vy a) (vy b))) (f_mul (vz a) (vz b))"

text \<open>Modelled from the spec: the componentwise absolute value \<^verbatim>\<open>abs(a)\<close> of a float
  vector.\<close>

definition f_vabs :: "vec3s \<Rightarrow> vec3s" where
  "f_vabs a = Vec3 (f_abs (vx a)) (f_abs (vy a)) (f_abs (vz a))"

text \<open>Modelled from the spec: the componentwise minimum \<^verbatim>\<open>min(a, b)\<close> of two float
  vectors.\<close>

definition f_vmin :: "vec3s \<Rightarrow> vec3s \<Rightarrow> vec3s" where
  "f_vmin a b = Vec3 (f_min (vx a) (vx b)) (f_min (vy a) (vy b)) (f_min (vz a) (vz b))"

text \<open>Modelled from the spec: the componentwise maximum \<^verbatim>\<open>max(a, b)\<close> of two float
  vectors.\<close>

definition f_vmax :: "vec3s \<Rightarrow> vec3s \<Rightarrow> vec3s" where
  "f_vmax a b = Vec3 (f_max (vx a) (vx b)) (f_max (vy a) (vy b)) (f_max (vz a) (vz b))"

text \<open>Modelled from the spec: the largest component \<^verbatim>\<open>max(a)\<close> of a float vector,
  \<^verbatim>\<open>max(max(a.x, a.y), a.z)\<close>.\<close>

definition f_max_comp :: "vec3s \<Rightarrow> f32" where
  "f_max_comp a = f_max (f_max (vx a) (vy a)) (vz a)"

text \<open>Modelled from the spec: the smallest component \<^verbatim>\<open>min(a)\<close> of a float vector,
  \<^verbatim>\<open>min(min(a.x, a.y), a.z)\<close>.\<close>

definition f_min_comp :: "vec3s \<Rightarrow> f32" where
  "f_min_comp a = f_min (f_min (vx a) (vy a)) (vz a)"

text \<open>The floats of a vector, a box, a ray and a cone that are written with real numbers:
  every number is rounded to the nearest float, as a literal of the source is.\<close>

definition single_vec :: "vec3f \<Rightarrow> vec3s" where
  "single_vec a = Vec3 (round32 (vx a)) (round32 (vy a)) (round32 (vz a))"

definition single_box :: "bbox3f \<Rightarrow> bbox3s" where
  "single_box b = \<lparr>bmin = single_vec (bmin b), bmax = single_vec (bmax b)\<rparr>"

definition single_ray :: "ray3f \<Rightarrow> ray3s" where
  "single_ray r = \<lparr>ray_o = single_vec (ray_o r), ray_d = single_vec (ray_d r),
     ray_tmin = round32 (ray_tmin r), ray_tmax = round32 (ray_tmax r)\<rparr>"

definition single_cone :: "cone_data \<Rightarrow> cone_s" where
  "single_cone c = \<lparr>origin = single_vec (origin c), dir = single_vec (dir c),
     spread = round32 (spread c), cone_tmin = round32 (cone_tmin c),
     cone_tmax = round32 (cone_tmax c)\<rparr>"

text \<open>The aggregate initialisation \<^verbatim>\<open>ray3f{o, d}\<close> on floats: \<^verbatim>\<open>tmin\<close> and \<^verbatim>\<open>tmax\<close>
  are at their defaults, \<^verbatim>\<open>ray_eps = 1e-4f\<close> and \<^verbatim>\<open>flt_max\<close>.\<close>

definition ray3s_od :: "vec3s \<Rightarrow> vec3s \<Rightarrow> ray3s" where
  "ray3s_od p q = \<lparr>ray_o = p, ray_d = q, ray_tmin = round32 ray_eps, ray_tmax = Fin flt_max\<rparr>"

section \<open>The slab test\<close>

text \<open>\<^verbatim>\<open>if (invd.x < 0.0f) swap(t0.x, t1.x)\<close>: the pair after the statement.\<close>

definition swap_neg :: "f32 \<Rightarrow> f32 \<times> f32 \<Rightarrow> f32 \<times> f32" where
  "swap_neg i p = (if f_lt i (Fin 0) then (snd p, fst p) else p)"

text \<open>The float of the literal \<^verbatim>\<open>1.00000024f\<close>, which is \<open>1 + 1 / 2 ^ 22\<close>.\<close>

definition slack :: f32 where
  "slack = Fin (1 + 1 / 2 ^ 22)"

definition intersect_bbox :: "ray3s \<Rightarrow> bbox3s \<Rightarrow> bool" where
  "intersect_bbox ray bbox =
     (let invd = f_vrecip (ray_d ray);
          t0 = f_vmul (f_vsub (bmin bbox) (ray_o ray)) invd;
          t1 = f_vmul (f_vsub (bmax bbox) (ray_o ray)) invd;
          px = swap_neg (vx invd) (vx t0, vx t1);
          py = swap_neg (vy invd) (vy t0, vy t1);
          pz = swap_neg (vz invd) (vz t0, vz t1);
          tmin = f_max (fst pz) (f_max (fst py) (f_max (fst px) (ray_tmin ray)));
          tmax = f_min (snd pz) (f_min (snd py) (f_min (snd px) (ray_tmax ray)));
          tmax = f_mul tmax slack
      in f_le tmin tmax)"

text \<open>The overload that takes the inverse direction \<^verbatim>\<open>ray_dinv\<close> from its caller.\<close>

definition intersect_bbox_dinv :: "ray3s \<Rightarrow> vec3s \<Rightarrow> bbox3s \<Rightarrow> bool" where
  "intersect_bbox_dinv ray ray_dinv bbox =
     (let it_min = f_vmul (f_vsub (bmin bbox) (ray_o ray)) ray_dinv;
          it_max = f_vmul (f_vsub (bmax bbox) (ray_o ray)) ray_dinv;
          tmin = f_vmin it_min it_max;
          tmax = f_vmax it_min it_max;
          t0 = f_max (f_max_comp tmin) (ray_tmin ray);
          t1 = f_min (f_min_comp tmax) (ray_tmax ray);
          t1 = f_mul t1 slack
      in f_le t0 t1)"

section \<open>The sphere\<close>

definition intersect_sphere :: "ray3s \<Rightarrow> vec3s \<Rightarrow> f32 \<Rightarrow> ((f32 \<times> f32) \<times> f32) outcome" where
  "intersect_sphere ray p r =
     (let a = f_dot (ray_d ray) (ray_d ray);
          b = f_mul (Fin 2) (f_dot (f_vsub (ray_o ray) p) (ray_d ray));
          c = f_sub (f_dot (f_vsub (ray_o ray) p) (f_vsub (ray_o ray) p)) (f_mul r r);
          dis = f_sub (f_mul b b) (f_mul (f_mul (Fin 4) a) c)
      in if f_lt dis (Fin 0) then Miss
         else
           (let t = f_div (f_sub (f_neg b) (f_sqrt dis)) (f_mul (Fin 2) a) in
            if f_lt t (ray_tmin ray) \<or> f_gt t (ray_tmax ray) then Miss
            else
              (let t = f_div (f_add (f_neg b) (f_sqrt dis)) (f_mul (Fin 2) a) in
               if f_lt t (ray_tmin ray) \<or> f_gt t (ray_tmax ray) then Miss
               else
                 (let plocal = f_vdivs (f_vsub (f_vadd (ray_o ray) (f_vscale (ray_d ray) t)) p) r;
                      u = f_div (f_atan2 (vy plocal) (vx plocal)) (f_mul (Fin 2) pif);
                      u = (if f_lt u (Fin 0) then f_add u (Fin 1) else u);
                      v = f_div (f_acos (f_clamp (vz plocal) (Fin (- 1)) (Fin 1))) pif
                  in Hit ((u, v), t)))))"

text \<open>The discriminant \<^verbatim>\<open>dis\<close> of the sphere solver and the two values it assigns to
  \<^verbatim>\<open>t\<close>, in the order of the source: the near root and the far root of the quadratic.\<close>

definition sphere_dis :: "ray3s \<Rightarrow> vec3s \<Rightarrow> f32 \<Rightarrow> f32" where
  "sphere_dis ray p r =
     (let a = f_dot (ray_d ray) (ray_d ray);
          b = f_mul (Fin 2) (f_dot (f_vsub (ray_o ray) p) (ray_d ray));
          c = f_sub (f_dot (f_vsub (ray_o ray) p) (f_vsub (ray_o ray) p)) (f_mul r r)
      in f_sub (f_mul b b) (f_mul (f_mul (Fin 4) a) c))"

definition sphere_roots :: "ray3s \<Rightarrow> vec3s \<Rightarrow> f32 \<Rightarrow> f32 \<times> f32" where
  "sphere_roots ray p r =
     (let a = f_dot (ray_d ray) (ray_d ray);
          b = f_mul (Fin 2) (f_dot (f_vsub (ray_o ray) p) (ray_d ray));
          dis = sphere_dis ray p r
      in (f_div (f_sub (f_neg b) (f_sqrt dis)) (f_mul (Fin 2) a),
          f_div (f_add (f_neg b) (f_sqrt dis)) (f_mul (Fin 2) a)))"

text \<open>The bounds check of the solvers on a ray parameter: \<^verbatim>\<open>t\<close> passes when
  \<^verbatim>\<open>t < ray.tmin || t > ray.tmax\<close> is false. A parameter that is a number passes when
  it is within \<open>[tmin, tmax]\<close>, and a NaN passes.\<close>

definition passes_bounds :: "ray3s \<Rightarrow> f32 \<Rightarrow> bool" where
  "passes_bounds ray t = (\<not> (f_lt t (ray_tmin ray) \<or> f_gt t (ray_tmax ray)))"

text \<open>The distance that a solver wrote, when it returned \<^verbatim>\<open>true\<close>.\<close>

fun hit_dist :: "('u \<times> 'd) outcome \<Rightarrow> 'd option" where
  "hit_dist (Hit (uv, t)) = Some t"
| "hit_dist c = None"

section \<open>The cone against a box\<close>

text \<open>\<^verbatim>\<open>AABBPolygon(type)\<close>: the corner indices \<^verbatim>\<open>point[0 .. nPoints - 1]\<close> of the
  silhouette polygon; \<^verbatim>\<open>nPoints\<close> is the length of the list.\<close>

definition AABBPolygon :: "nat \<Rightarrow> nat list" where
  "AABBPolygon type =
     (if type = 0 then [1, 5, 4, 6, 2, 3]
      else if type = 1 then [0, 2, 3, 1, 5, 4]
      else if type = 2 then [0, 2, 3, 7, 5, 4]
      else if type = 3 then [0, 4, 6, 2, 3, 1]
      else if type = 4 then [0, 2, 3, 1]
      else if type = 5 then [0, 2, 3, 7, 5, 1]
      else if type = 6 then [0, 4, 6, 7, 3, 1]
      else if type = 7 then [0, 2, 6, 7, 3, 1]
      else if type = 8 then [0, 2, 6, 7, 5, 1]
      else if type = 9 then [0, 1, 5, 4, 6, 2]
      else if type = 10 then [0, 1, 5, 4]
      else if type = 11 then [0, 1, 3, 7, 5, 4]
      else if type = 12 then [0, 4, 6, 2]
      else if type = 13 then []
      else if type = 14 then [1, 3, 7, 5]
      else if type = 15 then [0, 4, 6, 7, 3, 2]
      else if type = 16 then [2, 6, 7, 3]
      else if type = 17 then [1, 3, 2, 6, 7, 5]
      else if type = 18 then [0, 1, 5, 7, 6, 2]
      else if type = 19 then [0, 1, 5, 7, 6, 4]
      else if type = 20 then [0, 1, 3, 7, 6, 4]
      else if type = 21 then [0, 4, 5, 7, 6, 2]
      else if type = 22 then [4, 5, 7, 6]
      else if type = 23 then [1, 3, 7, 6, 4, 5]
      else if type = 24 then [0, 4, 5, 7, 3, 2]
      else if type = 25 then [2, 6, 4, 5, 7, 3]
      else [1, 3, 2, 6, 4, 5])"

definition setVectorValue :: "'a vec3 \<Rightarrow> nat \<Rightarrow> 'a \<Rightarrow> 'a vec3" where
  "setVectorValue vec pos val =
     (if pos = 0 then Vec3 val (vy vec) (vz vec)
      else if pos = 1 then Vec3 (vx vec) val (vz vec)
      else Vec3 (vx vec) (vy vec) val)"

definition getVectorValue :: "'a vec3 \<Rightarrow> nat \<Rightarrow> 'a" where
  "getVectorValue vec pos = (if pos = 0 then vx vec else if pos = 1 then vy vec else vz vec)"

text \<open>A read of a three-element array (\<^verbatim>\<open>maxPmV[k]\<close>, \<^verbatim>\<open>coneDirection[k]\<close>);
  an index past the end has no value.\<close>

definition arr3 :: "'a vec3 \<Rightarrow> nat \<Rightarrow> 'a option" where
  "arr3 a k = (if k = 0 then Some (vx a) else if k = 1 then Some (vy a)
               else if k = 2 then Some (vz a) else None)"

text \<open>The values the loop over the polygon stores at index \<open>j\<close> of its arrays; each is a
  function of \<open>j\<close> and of the box and the cone, and is read only after it was stored.\<close>

definition corner_X :: "vec3s \<Rightarrow> nat \<Rightarrow> vec3s" where
  "corner_X box_e j =
     Vec3 (if odd j then vx box_e else f_neg (vx box_e))
          (if odd (j div 2) then vy box_e else f_neg (vy box_e))
          (if odd (j div 4) then vz box_e else f_neg (vz box_e))"

definition coneDirDOTPmV :: "cone_s \<Rightarrow> vec3s \<Rightarrow> f32 \<Rightarrow> nat \<Rightarrow> f32" where
  "coneDirDOTPmV cone box_e cone_dir_dot_box_cone j =
     f_add (f_dot (dir cone) (corner_X box_e j)) cone_dir_dot_box_cone"

definition PmV :: "vec3s \<Rightarrow> vec3s \<Rightarrow> nat \<Rightarrow> vec3s" where
  "PmV box_e box_cone_vec j = f_vadd (corner_X box_e j) box_cone_vec"

definition sqrConeDirDOTPmV :: "cone_s \<Rightarrow> vec3s \<Rightarrow> f32 \<Rightarrow> nat \<Rightarrow> f32" where
  "sqrConeDirDOTPmV cone box_e cone_dir_dot_box_cone j =
     f_mul (coneDirDOTPmV cone box_e cone_dir_dot_box_cone j)
           (coneDirDOTPmV cone box_e cone_dir_dot_box_cone j)"

definition sqrLenPmV :: "vec3s \<Rightarrow> vec3s \<Rightarrow> nat \<Rightarrow> f32" where
  "sqrLenPmV box_e box_cone_vec j = f_dot (PmV box_e box_cone_vec j) (PmV box_e box_cone_vec j)"

text \<open>The loop over the polygon's points: \<open>Accept\<close> is its \<^verbatim>\<open>return true\<close>, and
  \<open>Scanned\<close> holds \<^verbatim>\<open>(iMax, jMax)\<close> at its end, \<open>None\<close> for \<^verbatim>\<open>iMax == -1\<close>.\<close>

datatype scan = Accept | Scanned "(nat \<times> nat) option"

fun test_points ::
  "cone_s \<Rightarrow> vec3s \<Rightarrow> vec3s \<Rightarrow> f32 \<Rightarrow> f32 \<Rightarrow> nat list \<Rightarrow> nat \<Rightarrow> (nat \<times> nat) option \<Rightarrow> scan"
where
  "test_points cone box_e box_cone_vec cddbc coneCosAngle_2 [] i m = Scanned m"
| "test_points cone box_e box_cone_vec cddbc coneCosAngle_2 (j # js) i m =
     (if f_gt (coneDirDOTPmV cone box_e cddbc j) (Fin 0) then
        (let q = f_sub (sqrConeDirDOTPmV cone box_e cddbc j)
                   (f_mul coneCosAngle_2 (sqrLenPmV box_e box_cone_vec j)) in
         if f_gt q (Fin 0) then Accept
         else test_points cone box_e box_cone_vec cddbc coneCosAngle_2 js (Suc i)
           (case m of
              None \<Rightarrow> Some (i, j)
            | Some (iMax, jMax) \<Rightarrow>
                if f_gt (f_mul (sqrConeDirDOTPmV cone box_e cddbc j)
                               (sqrLenPmV box_e box_cone_vec jMax))
                        (f_mul (sqrConeDirDOTPmV cone box_e cddbc jMax)
                               (sqrLenPmV box_e box_cone_vec j))
                then Some (i, j) else Some (iMax, jMax)))
      else test_points cone box_e box_cone_vec cddbc coneCosAngle_2 js (Suc i) m)"

text \<open>The body of \<^verbatim>\<open>if (fder > 0.0f)\<close>, the same for both edges: the local maximum
  on the edge and the side test. \<open>None\<close> is a read past the end of a three-element
  array.\<close>

definition edge_maximum ::
  "cone_s \<Rightarrow> f32 \<Rightarrow> vec3s \<Rightarrow> vec3s \<Rightarrow> vec3s \<Rightarrow> f32 \<Rightarrow> nat \<Rightarrow> bool option"
where
  "edge_maximum cone coneCosAngle_2 box_cone_vec maxX maxPmV s k0 =
     (let k1 = (k0 + 1) mod 3;
          k2 = (k1 + 1) mod 3
      in case (arr3 maxPmV k1, arr3 maxPmV k2, arr3 (dir cone) k0,
               arr3 (dir cone) k1, arr3 (dir cone) k2) of
           (Some m1, Some m2, Some c0, Some c1, Some c2) \<Rightarrow>
             (let numer = f_add (f_mul m1 m1) (f_mul m2 m2);
                  denom = f_add (f_mul c1 m1) (f_mul c2 m2);
                  MmV = setVectorValue (Vec3 (Fin 0) (Fin 0) (Fin 0)) k0 (f_mul numer c0);
                  MmV = setVectorValue MmV k1
                          (f_mul denom (f_add (getVectorValue maxX k1)
                                              (getVectorValue box_cone_vec k1)));
                  MmV = setVectorValue MmV k2
                          (f_mul denom (f_add (getVectorValue maxX k2)
                                              (getVectorValue box_cone_vec k2)));
                  DdMmV = f_dot (dir cone) MmV;
                  q = f_sub (f_mul DdMmV DdMmV) (f_mul coneCosAngle_2 (f_dot MmV MmV))
              in if f_gt q (Fin 0) then Some True
                 else (let det = f_mul s (f_sub (f_mul c1 m2) (f_mul c2 m1))
                       in Some (f_le det (Fin 0))))
         | _ \<Rightarrow> None)"

text \<open>The gradient ascent from the corner \<^verbatim>\<open>jMax\<close>: the counterclockwise edge, then the
  clockwise one.\<close>

definition gradient_ascent ::
  "cone_s \<Rightarrow> f32 \<Rightarrow> vec3s \<Rightarrow> vec3s \<Rightarrow> f32 \<Rightarrow> nat list \<Rightarrow> nat \<Rightarrow> nat \<Rightarrow> bool option"
where
  "gradient_ascent cone coneCosAngle_2 box_e box_cone_vec cddbc polygon iMax jMax =
     (let maxSqrLenPmV = sqrLenPmV box_e box_cone_vec jMax;
          maxConeDirDOTPmV = coneDirDOTPmV cone box_e cddbc jMax;
          maxX = corner_X box_e jMax;
          maxPmV = PmV box_e box_cone_vec jMax;
          nPoints = length polygon;
          iNext = (if int iMax < int nPoints - 1 then iMax + 1 else 0);
          jNext = polygon ! iNext;
          jDiff = int jNext - int jMax;
          s = (if jDiff > 0 then Fin 1 else Fin (- 1));
          k0 = nat \<bar>jDiff\<bar> div 2
      in case (arr3 (dir cone) k0, arr3 maxPmV k0) of
           (Some c0, Some m0) \<Rightarrow>
             (let fder = f_mul s (f_sub (f_mul c0 maxSqrLenPmV) (f_mul maxConeDirDOTPmV m0)) in
              if f_gt fder (Fin 0)
              then edge_maximum cone coneCosAngle_2 box_cone_vec maxX maxPmV s k0
              else
                (let iPrev = (if iMax > 0 then iMax - 1 else nPoints - 1);
                     jPrev = polygon ! iPrev;
                     jDiff = int jMax - int jPrev;
                     s = (if jDiff > 0 then Fin 1 else Fin (- 1));
                     k0 = nat \<bar>jDiff\<bar> div 2
                 in case (arr3 (dir cone) k0, arr3 maxPmV k0) of
                      (Some c0, Some m0) \<Rightarrow>
                        (let fder = f_mul (f_neg s)
                                      (f_sub (f_mul c0 maxSqrLenPmV) (f_mul maxConeDirDOTPmV m0)) in
                         if f_gt fder (Fin 0)
                         then edge_maximum cone coneCosAngle_2 box_cone_vec maxX maxPmV s k0
                         else Some False)
                    | _ \<Rightarrow> None))
         | _ \<Rightarrow> None)"

text \<open>\<^verbatim>\<open>type\<close>: one base-3 digit per axis.\<close>

definition axis_digit :: "f32 \<Rightarrow> f32 \<Rightarrow> nat" where
  "axis_digit c e = (if f_lt c (f_neg e) then 2 else if f_gt c e then 0 else 1)"

definition cone_intersect_bbox :: "cone_s \<Rightarrow> bbox3s \<Rightarrow> bool \<Rightarrow> bool option" where
  "cone_intersect_bbox cone bbox printing =
     (let box_centre = f_vscale (f_vadd (bmax bbox) (bmin bbox)) (Fin (1 / 2));
          box_e = f_vscale (f_vsub (bmax bbox) (bmin bbox)) (Fin (1 / 2));
          box_cone_vec = f_vsub box_centre (origin cone);
          cone_dir_dot_box_cone = f_dot (dir cone) box_cone_vec;
          radius = f_dot box_e (f_vabs (dir cone))
      in if f_le (f_add cone_dir_dot_box_cone radius) (Fin 0) then Some False
         else if intersect_bbox (ray3s_od (origin cone) (dir cone)) bbox then Some True
         else
           (let type = axis_digit (vx box_cone_vec) (vx box_e)
                     + 3 * axis_digit (vy box_cone_vec) (vy box_e)
                     + 9 * axis_digit (vz box_cone_vec) (vz box_e)
            in if type = 13 then Some True
               else
                 (let polygon = AABBPolygon type;
                      coneCosAngle_2 = f_mul (f_cos (spread cone)) (f_cos (spread cone))
                  in case test_points cone box_e box_cone_vec cone_dir_dot_box_cone
                            coneCosAngle_2 polygon 0 None of
                       Accept \<Rightarrow> Some True
                     | Scanned None \<Rightarrow> Some False
                     | Scanned (Some (iMax, jMax)) \<Rightarrow>
                         gradient_ascent cone coneCosAngle_2 box_e box_cone_vec
                           cone_dir_dot_box_cone polygon iMax jMax)))"

section \<open>Distance to a triangle and to a quad\<close>

text \<open>The closest point of a triangle; \<open>None\<close> where the source divides by zero (a
  degenerate triangle).\<close>

definition closestuv_triangle :: "vec3f \<Rightarrow> vec3f \<Rightarrow> vec3f \<Rightarrow> vec3f \<Rightarrow> vec2f option" where
  "closestuv_triangle pos p0 p1 p2 =
     (let ab = vsub p1 p0;
          ac = vsub p2 p0;
          ap = vsub pos p0;
          d1 = dot ab ap;
          d2 = dot ac ap
      in if d1 \<le> 0 \<and> d2 \<le> 0 then Some (0, 0)
         else
           (let bp = vsub pos p1;
                d3 = dot ab bp;
                d4 = dot ac bp
            in if d3 \<ge> 0 \<and> d4 \<le> d3 then Some (1, 0)
               else
                 (let vc = d1 * d4 - d3 * d2 in
                  if vc \<le> 0 \<and> d1 \<ge> 0 \<and> d3 \<le> 0 then
                    (if d1 - d3 = 0 then None else Some (d1 / (d1 - d3), 0))
                  else
                    (let cp = vsub pos p2;
                         d5 = dot ab cp;
                         d6 = dot ac cp
                     in if d6 \<ge> 0 \<and> d5 \<le> d6 then Some (0, 1)
                        else
                          (let vb = d5 * d2 - d1 * d6 in
                           if vb \<le> 0 \<and> d2 \<ge> 0 \<and> d6 \<le> 0 then
                             (if d2 - d6 = 0 then None else Some (0, d2 / (d2 - d6)))
                           else
                             (let va = d3 * d6 - d5 * d4 in
                              if va \<le> 0 \<and> d4 - d3 \<ge> 0 \<and> d5 - d6 \<ge> 0 then
                                (if (d4 - d3) + (d5 - d6) = 0 then None
                                 else
                                   (let w = (d4 - d3) / ((d4 - d3) + (d5 - d6))
                                    in Some (1 - w, w)))
                              else
                                (if va + vb + vc = 0 then None
                                 else
                                   (let denom = 1 / (va + vb + vc);
                                        u = vb * denom;
                                        v = vc * denom
                                    in Some (u, v)))))))))"

definition overlap_triangle ::
  "vec3f \<Rightarrow> real \<Rightarrow> vec3f \<Rightarrow> vec3f \<Rightarrow> vec3f \<Rightarrow> real \<Rightarrow> real \<Rightarrow> real \<Rightarrow> (vec2f \<times> real) outcome"
where
  "overlap_triangle pos dist_max p0 p1 p2 r0 r1 r2 =
     (case closestuv_triangle pos p0 p1 p2 of
        None \<Rightarrow> NonFinite
      | Some cuv \<Rightarrow>
          (let p = vadd (vadd (vscale p0 (1 - fst cuv - snd cuv)) (vscale p1 (fst cuv)))
                     (vscale p2 (snd cuv));
               r = r0 * (1 - fst cuv - snd cuv) + r1 * fst cuv + r2 * snd cuv;
               dd = dot (vsub p pos) (vsub p pos)
           in if dd > (dist_max + r) * (dist_max + r) then Miss
              else Hit (cuv, sqrt dd)))"

text \<open>The quad test writes to \<^verbatim>\<open>uv\<close> and \<^verbatim>\<open>dist\<close> on paths that do not set
  \<^verbatim>\<open>hit\<close> and reads \<^verbatim>\<open>uv\<close> back, so the model takes the caller's \<open>uv\<close> and
  \<open>dist\<close> and returns \<^verbatim>\<open>(hit, uv, dist)\<close> as they are at the return; \<open>None\<close> is
  a division by zero in the closest-point routine.\<close>

definition overlap_quad ::
  "vec3f \<Rightarrow> real \<Rightarrow> vec3f \<Rightarrow> vec3f \<Rightarrow> vec3f \<Rightarrow> vec3f \<Rightarrow> real \<Rightarrow> real \<Rightarrow> real \<Rightarrow> real
     \<Rightarrow> vec2f \<Rightarrow> real \<Rightarrow> (bool \<times> vec2f \<times> real) option"
where
  "overlap_quad pos dist_max p0 p1 p2 p3 r0 r1 r2 r3 uv dist0 =
     (if p2 = p3 then
        (case overlap_triangle pos dist_max p0 p1 p3 r0 r1 r2 of
           NonFinite \<Rightarrow> None
         | Miss \<Rightarrow> Some (False, uv, dist0)
         | Hit (uv1, dist1) \<Rightarrow> Some (True, uv1, dist1))
      else
        (case overlap_triangle pos dist_max p0 p1 p3 r0 r1 r2 of
           NonFinite \<Rightarrow> None
         | first \<Rightarrow>
             (let (hit, dist_max, uv, dist0) =
                    (case first of
                       Hit (uv1, dist1) \<Rightarrow> (True, dist1, uv1, dist1)
                     | _ \<Rightarrow> (False, dist_max, uv, dist0))
              in case overlap_triangle pos dist_max p2 p3 p1 r2 r3 r1 of
                   NonFinite \<Rightarrow> None
                 | Hit (uv2, dist2) \<Rightarrow> Some (hit, uv2, dist2)
                 | Miss \<Rightarrow> Some (True, one_minus uv, dist0))))"

text \<open>The index \<^verbatim>\<open>k0\<close> that the gradient ascent computes for the edge after the corner at
  position \<open>i\<close> of the polygon, and for the edge before it.\<close>

definition next_k0 :: "nat list \<Rightarrow> nat \<Rightarrow> nat" where
  "next_k0 polygon i =
     nat \<bar>int (polygon ! (if int i < int (length polygon) - 1 then i + 1 else 0))
           - int (polygon ! i)\<bar> div 2"

definition prev_k0 :: "nat list \<Rightarrow> nat \<Rightarrow> nat" where
  "prev_k0 polygon i =
     nat \<bar>int (polygon ! i)
           - int (polygon ! (if i > 0 then i - 1 else length polygon - 1))\<bar> div 2"

definition edges_ok :: "nat list \<Rightarrow> bool" where
  "edges_ok xs = list_all (\<lambda>i. next_k0 xs i \<le> 2 \<and> prev_k0 xs i \<le> 2) [0..<length xs]"

text \<open>\<^verbatim>\<open>overlap_bbox(bbox1, bbox2)\<close>, the overload on two boxes.\<close>

definition overlap_bbox_boxes :: "bbox3f \<Rightarrow> bbox3f \<Rightarrow> bool" where
  "overlap_bbox_boxes bbox1 bbox2 =
     (if vx (bmax bbox1) < vx (bmin bbox2) \<or> vx (bmin bbox1) > vx (bmax bbox2) then False
      else if vy (bmax bbox1) < vy (bmin bbox2) \<or> vy (bmin bbox1) > vy (bmax bbox2) then False
      else if vz (bmax bbox1) < vz (bmin bbox2) \<or> vz (bmin bbox1) > vz (bmax bbox2) then False
      else True)"

section \<open>Concrete inputs\<close>

text \<open>The box of the spec's scenarios, \<open>[-1, 1]\<close> on every axis.\<close>

definition unit_box :: bbox3f where
  "unit_box = \<lparr>bmin = Vec3 (- 1) (- 1) (- 1), bmax = Vec3 1 1 1\<rparr>"

text \<open>A box around the origin that reaches from \<open>-2 ^ 27\<close> to \<open>1 / 1024\<close> on the third
  axis; all its coordinates are floats.\<close>

definition long_box :: bbox3f where
  "long_box = \<lparr>bmin = Vec3 (- 1) (- 1) (- (2 ^ 27)), bmax = Vec3 1 1 (1 / 1024)\<rparr>"

text \<open>The ray of the spec's scenarios: from \<open>(0, 0, h)\<close> along the third axis, with the
  default bounds.\<close>

definition z_ray :: "real \<Rightarrow> ray3f" where
  "z_ray h = ray3f_od (Vec3 0 0 h) (Vec3 0 0 1)"

text \<open>A ray along the third axis in the plane of the face \<open>x = -1\<close> of the unit box, with
  the default bounds.\<close>

definition face_ray :: ray3f where
  "face_ray = ray3f_od (Vec3 (- 1) 0 (- 5)) (Vec3 0 0 1)"

definition centre :: vec3f where
  "centre = Vec3 0 0 0"

text \<open>A ray along the third axis with \<^verbatim>\<open>tmin = 0\<close> whose origin is at the distance
  \<open>sqrt (1 + 2 ^ -22)\<close> from \<open>centre\<close>, and a radius just above that distance; the
  coordinates and the radius are floats.\<close>

definition grazing_ray :: ray3f where
  "grazing_ray = \<lparr>ray_o = Vec3 1 (1 / 2 ^ 11) 0, ray_d = Vec3 0 0 1,
     ray_tmin = 0, ray_tmax = flt_max\<rparr>"

definition grazing_radius :: real where
  "grazing_radius = 1 + 1 / 2 ^ 23"

text \<open>A ray along the first axis from \<open>(2 ^ 70, 0, 0)\<close>, with the default bounds: the square
  of its distance from \<open>centre\<close> is above \<^verbatim>\<open>flt_max\<close>.\<close>

definition far_ray :: ray3f where
  "far_ray = ray3f_od (Vec3 (2 ^ 70) 0 0) (Vec3 1 0 0)"

text \<open>A cone at the origin along the third axis with the bounds \<open>lo\<close> and \<open>hi\<close>, and a
  triangle in the plane at height \<open>h\<close> that the axis crosses at \<open>uv = (1/4, 1/4)\<close>.\<close>

definition z_cone :: "real \<Rightarrow> real \<Rightarrow> cone_data" where
  "z_cone lo hi = \<lparr>origin = Vec3 0 0 0, dir = Vec3 0 0 1, spread = 1 / 10,
     cone_tmin = lo, cone_tmax = hi\<rparr>"

definition tri_a :: "real \<Rightarrow> vec3f" where
  "tri_a h = Vec3 (- 1) (- 1) h"

definition tri_b :: "real \<Rightarrow> vec3f" where
  "tri_b h = Vec3 3 (- 1) h"

definition tri_c :: "real \<Rightarrow> vec3f" where
  "tri_c h = Vec3 (- 1) 3 h"

text \<open>The fourth corner of a quad on that triangle, and a segment in the plane at height
  1 that the axis of the cone crosses in its middle.\<close>

definition quad_c :: vec3f where
  "quad_c = Vec3 3 3 1"

definition seg_a :: vec3f where
  "seg_a = Vec3 (- 1) 0 1"

definition seg_b :: vec3f where
  "seg_b = Vec3 1 0 1"

text \<open>A cone at the origin along the first axis with half-angle \<open>a\<close>, and a small triangle
  around the point of its axis at distance 1.\<close>

definition x_cone :: "real \<Rightarrow> cone_data" where
  "x_cone a = \<lparr>origin = Vec3 0 0 0, dir = Vec3 1 0 0, spread = a,
     cone_tmin = ray_eps, cone_tmax = flt_max\<rparr>"

definition s_a :: vec3f where
  "s_a = Vec3 1 (- (1 / 64)) (- (1 / 64))"

definition s_b :: vec3f where
  "s_b = Vec3 1 (3 / 64) (- (1 / 64))"

definition s_c :: vec3f where
  "s_c = Vec3 1 (- (1 / 64)) (3 / 64)"

text \<open>The distance from the origin of that cone to the center of its disc for that
  triangle.\<close>

definition disc_L :: real where
  "disc_L = vlength (vsub (vadd (vmax s_a s_b) s_c) (Vec3 0 0 0))"

text \<open>The unit square in the plane of height 0 and a position at distance 10 above it.\<close>

definition q0 :: vec3f where
  "q0 = Vec3 0 0 0"

definition q1 :: vec3f where
  "q1 = Vec3 1 0 0"

definition q2 :: vec3f where
  "q2 = Vec3 1 1 0"

definition q3 :: vec3f where
  "q3 = Vec3 0 1 0"

definition far_pos :: vec3f where
  "far_pos = Vec3 0 0 10"

section \<open>What a statement about the sampler says\<close>

text \<open>The number of samples \<open>1 .. N\<close> whose solver call succeeds.\<close>

abbreviation hit_count :: "n_cone_points \<Rightarrow> (real \<Rightarrow> (vec2f \<times> real) outcome) \<Rightarrow> nat" where
  "hit_count N test \<equiv> card {i. 1 \<le> i \<and> i \<le> n_points N \<and> (\<exists>x. test (spiral_r N i) = Hit x)}"

text \<open>\<open>d\<close> is the distance that the last successful solver call of the loop wrote.\<close>

abbreviation last_hit_dist :: "n_cone_points \<Rightarrow> (real \<Rightarrow> (vec2f \<times> real) outcome) \<Rightarrow> real \<Rightarrow> bool" where
  "last_hit_dist N test d \<equiv>
     \<exists>i uv'. 1 \<le> i \<and> i \<le> n_points N \<and> test (spiral_r N i) = Hit (uv', d) \<and>
       (\<forall>j. i < j \<and> j \<le> n_points N \<longrightarrow> (\<forall>x. test (spiral_r N j) \<noteq> Hit x))"

text \<open>What the decision of a sampler reads of the state of its loop: the list of
  parameters, the last distance written and the count; not \<^verbatim>\<open>minDistance\<close>.\<close>

definition sampler_out :: "sampler \<Rightarrow> vec2f list \<times> real \<times> nat" where
  "sampler_out st = (uv_list st, t_dist st, nPoints st)"

text \<open>The distances of the successful ones among the first \<open>k\<close> sample tests, in the order
  of the loop, and those of the triangle sampler. These follow the words of the spec
  (``the minimum distance over all successful samples''), for the comparison with what
  the code returns.\<close>

fun success_dists :: "(nat \<Rightarrow> (vec2f \<times> real) outcome) \<Rightarrow> nat \<Rightarrow> real list" where
  "success_dists test 0 = []"
| "success_dists test (Suc k) =
     success_dists test k @ (case test (Suc k) of Hit (uv, t) \<Rightarrow> [t] | _ \<Rightarrow> [])"

definition triangle_sample_dists ::
  "n_cone_points \<Rightarrow> cone_data \<Rightarrow> vec3f \<Rightarrow> vec3f \<Rightarrow> vec3f \<Rightarrow> real list" where
  "triangle_sample_dists N cone p0 p1 p2 =
     success_dists (\<lambda>i. intersect_triangle (cone_ray cone) p0 p1 p2) (n_points N)"

section \<open>Single precision: evaluation\<close>

text \<open>The search for the exponent, one step at a numeral.\<close>

lemma exp_up_numeral:
  "exp_up (numeral k) a = (if 2 \<le> a then exp_up (pred_numeral k) (a / 2) + 1 else 0)"
  by (simp add: numeral_eq_Suc)

lemma exp_down_numeral:
  "exp_down (numeral k) a = (if a < 1 then exp_down (pred_numeral k) (a * 2) - 1 else 0)"
  by (simp add: numeral_eq_Suc)

lemmas round32_eval = round32_def exponent_def exp_up_numeral exp_down_numeral round_even_def
  Let_def flt_max_def

lemmas f32_eval = f_vadd_def f_vsub_def f_vmul_def f_vscale_def f_vdivs_def f_vrecip_def
  f_dot_def f_vabs_def f_vmin_def f_vmax_def f_max_comp_def f_min_comp_def
  f_sub_def f_gt_def f_le_def f_abs_def f_min_def f_max_def f_clamp_def swap_neg_def slack_def

lemmas single_eval = single_ray_def single_box_def single_vec_def single_cone_def
  ray3f_od_def ray3s_od_def ray_eps_def

lemma f_lt_NaN: "f_lt a NaN = False"
  by (cases a) simp_all

text \<open>The literals of the source are the floats they are taken for here, and rounding
  keeps a number that is a float.\<close>

lemma float_literals:
  "round32 (100000024 / 100000000) = slack"
  "round32 ray_eps = Fin (13743895 / 2 ^ 37)"
  "round32 flt_max = Fin flt_max"
  "round32 (1 / 2) = Fin (1 / 2)"
  by (simp_all add: round32_eval slack_def ray_eps_def)

lemma scenario_floats:
  "single_box unit_box =
     \<lparr>bmin = Vec3 (Fin (- 1)) (Fin (- 1)) (Fin (- 1)), bmax = Vec3 (Fin 1) (Fin 1) (Fin 1)\<rparr>"
  "single_ray face_ray =
     \<lparr>ray_o = Vec3 (Fin (- 1)) (Fin 0) (Fin (- 5)), ray_d = Vec3 (Fin 0) (Fin 0) (Fin 1),
      ray_tmin = Fin (13743895 / 2 ^ 37), ray_tmax = Fin flt_max\<rparr>"
  "single_cone (z_cone ray_eps flt_max) =
     \<lparr>origin = Vec3 (Fin 0) (Fin 0) (Fin 0), dir = Vec3 (Fin 0) (Fin 0) (Fin 1),
      spread = Fin (13421773 / 2 ^ 27), cone_tmin = Fin (13743895 / 2 ^ 37),
      cone_tmax = Fin flt_max\<rparr>"
  by (simp_all add: single_eval unit_box_def face_ray_def z_cone_def round32_eval)

lemma long_box_floats:
  "single_box long_box =
     \<lparr>bmin = Vec3 (Fin (- 1)) (Fin (- 1)) (Fin (- (2 ^ 27))),
      bmax = Vec3 (Fin 1) (Fin 1) (Fin (1 / 1024))\<rparr>"
  by (simp add: single_eval long_box_def round32_eval)

lemma grazing_floats:
  "single_ray grazing_ray =
     \<lparr>ray_o = Vec3 (Fin 1) (Fin (1 / 2 ^ 11)) (Fin 0), ray_d = Vec3 (Fin 0) (Fin 0) (Fin 1),
      ray_tmin = Fin 0, ray_tmax = Fin flt_max\<rparr>"
  "round32 grazing_radius = Fin (1 + 1 / 2 ^ 23)"
  by (simp_all add: single_eval grazing_ray_def grazing_radius_def round32_eval)

section \<open>The slab test: claims\<close>

text \<open>C7. The claim: for every ray and every box the two overloads of the slab test return
  the same boolean when \<^verbatim>\<open>ray_dinv\<close> is the componentwise reciprocal \<^verbatim>\<open>1 / ray.d\<close>, also
  for a ray with direction components that are zero. Here the box is \<open>[-1, 1]\<close> on every
  axis and the ray runs from \<open>(-1, 0, -5)\<close> along the third axis, in the plane of a face
  of the box, with the default bounds. On the first axis its direction is zero and its
  origin is on the plane of the slab, so \<^verbatim>\<open>(bbox.min - ray.o) * invd\<close> is \<open>0 * inf\<close>, a
  NaN. The first overload drops the NaN in \<^verbatim>\<open>max(t0.x, ray.tmin)\<close> and returns true; the
  second turns it into an infinity in \<^verbatim>\<open>min(it_min, it_max)\<close> and returns false.\<close>

theorem slab_overloads_differ_on_face_ray:
  "intersect_bbox (single_ray face_ray) (single_box unit_box) \<and>
   \<not> intersect_bbox_dinv (single_ray face_ray) (f_vrecip (ray_d (single_ray face_ray)))
       (single_box unit_box)"
  by (simp add: intersect_bbox_def intersect_bbox_dinv_def single_eval face_ray_def unit_box_def
      f32_eval round32_eval)

section \<open>The cone against a box: claims\<close>

text \<open>C1. The claim: for every cone and every box, if the ray from the cone's origin along
  its axis intersects the box by the slab test, then \<^verbatim>\<open>cone_intersect_bbox\<close> returns
  true, whatever the half-space rejection before the axis test does. The code rejects
  first, on the sum of the projected center and the projected half-extent of the box, which
  it computes from \<^verbatim>\<open>(bbox.max + bbox.min) * 0.5f\<close> and \<^verbatim>\<open>(bbox.max - bbox.min) * 0.5f\<close>.
  Here the cone is at the origin with its axis along the third coordinate, and the box
  contains the origin and reaches from \<open>-2 ^ 27\<close> to \<open>1 / 1024\<close> on that axis. The sum and the
  difference of these two bounds round to \<open>-2 ^ 27\<close> and \<open>2 ^ 27\<close>, the rejection sum is
  \<open>-2 ^ 26 + 2 ^ 26 = 0\<close>, and the code returns false for a box that its slab test on
  the axis ray accepts.\<close>

theorem cone_rejects_box_on_axis_ray:
  "intersect_bbox
     (ray3s_od (origin (single_cone (z_cone ray_eps flt_max)))
        (dir (single_cone (z_cone ray_eps flt_max))))
     (single_box long_box) \<and>
   cone_intersect_bbox (single_cone (z_cone ray_eps flt_max)) (single_box long_box) printing
     = Some False"
  by (simp add: intersect_bbox_def cone_intersect_bbox_def single_eval z_cone_def long_box_def
      f32_eval round32_eval)

section \<open>The sphere: lemmas\<close>

lemma sphere_hit_iff:
  "(\<exists>uv. intersect_sphere ray p r = Hit (uv, t)) \<longleftrightarrow>
     \<not> f_lt (sphere_dis ray p r) (Fin 0) \<and>
     passes_bounds ray (fst (sphere_roots ray p r)) \<and>
     passes_bounds ray (snd (sphere_roots ray p r)) \<and>
     t = snd (sphere_roots ray p r)"
  unfolding intersect_sphere_def sphere_roots_def sphere_dis_def passes_bounds_def Let_def
  by auto

lemma sphere_miss_iff:
  "intersect_sphere ray p r = Miss \<longleftrightarrow>
     f_lt (sphere_dis ray p r) (Fin 0) \<or>
     \<not> passes_bounds ray (fst (sphere_roots ray p r)) \<or>
     \<not> passes_bounds ray (snd (sphere_roots ray p r))"
  unfolding intersect_sphere_def sphere_roots_def sphere_dis_def passes_bounds_def Let_def
  by auto

lemma hit_dist_iff: "hit_dist c = Some t \<longleftrightarrow> (\<exists>uv. c = Hit (uv, t))"
  by (cases c) auto

text \<open>A parameter that is a number passes the bounds check exactly when it is within the
  bounds.\<close>

lemma passes_bounds_le:
  "t \<noteq> NaN \<Longrightarrow> ray_tmin ray \<noteq> NaN \<Longrightarrow> ray_tmax ray \<noteq> NaN \<Longrightarrow>
     passes_bounds ray t \<longleftrightarrow> f_le (ray_tmin ray) t \<and> f_le t (ray_tmax ray)"
  by (simp add: passes_bounds_def f_le_def f_gt_def)

lemma sqrt4: "sqrt 4 = 2"
  using real_sqrt_abs[of 2] by simp

text \<open>The spec's scenario: the unit sphere and the ray from \<open>(0, 0, -5)\<close> along the third
  axis.\<close>

lemma sphere_scenario_hit:
  "intersect_sphere (single_ray (z_ray (- 5))) (single_vec centre) (Fin 1)
     = Hit ((Fin 0, Fin 0), Fin 6)"
  by (simp add: intersect_sphere_def single_eval z_ray_def centre_def f32_eval round32_eval
      sqrt4 atan2_def pif_def)

text \<open>The ray from the centre of the unit sphere along the third axis, with the default
  bounds and with the bounds \<open>[-2, 2]\<close>.\<close>

lemma sphere_centre_roots:
  "sphere_roots (single_ray (z_ray 0)) (single_vec centre) (Fin 1) = (Fin (- 1), Fin 1)"
  by (simp add: sphere_roots_def sphere_dis_def single_eval z_ray_def centre_def f32_eval
      round32_eval sqrt4)

lemma sphere_centre_miss:
  "intersect_sphere (single_ray (z_ray 0)) (single_vec centre) (Fin 1) = Miss"
  by (simp add: intersect_sphere_def single_eval z_ray_def centre_def f32_eval round32_eval
      sqrt4)

lemma sphere_centre_wide_hit:
  "intersect_sphere ((single_ray (z_ray 0))\<lparr>ray_tmin := Fin (- 2), ray_tmax := Fin 2\<rparr>)
      (single_vec centre) (Fin 1) = Hit ((Fin 0, Fin 0), Fin 1)"
  by (simp add: intersect_sphere_def single_eval z_ray_def centre_def f32_eval round32_eval
      sqrt4 atan2_def pif_def)

text \<open>The grazing ray: the square of the radius rounds to the square of the distance of
  the origin, so \<^verbatim>\<open>c\<close> and the discriminant are zero and both roots are zero.\<close>

lemma sphere_grazing_roots:
  "sphere_roots (single_ray grazing_ray) (single_vec centre) (round32 grazing_radius)
     = (Fin 0, Fin 0)"
  "sphere_dis (single_ray grazing_ray) (single_vec centre) (round32 grazing_radius) = Fin 0"
  unfolding grazing_floats
  by (simp_all add: sphere_roots_def sphere_dis_def single_eval centre_def f32_eval round32_eval)

lemma sphere_grazing_hit:
  "hit_dist (intersect_sphere (single_ray grazing_ray) (single_vec centre)
      (round32 grazing_radius)) = Some (Fin 0)"
  unfolding hit_dist_iff sphere_hit_iff sphere_grazing_roots
  by (simp add: passes_bounds_def grazing_floats f_gt_def flt_max_def)

text \<open>The far ray: the squares overflow, the discriminant is \<open>inf - inf\<close>, and both roots
  are NaN.\<close>

lemma sphere_far_roots:
  "sphere_roots (single_ray far_ray) (single_vec centre) (Fin 1) = (NaN, NaN)"
  "sphere_dis (single_ray far_ray) (single_vec centre) (Fin 1) = NaN"
  by (simp_all add: sphere_roots_def sphere_dis_def single_eval far_ray_def centre_def f32_eval
      round32_eval)

lemma sphere_far_hit:
  "hit_dist (intersect_sphere (single_ray far_ray) (single_vec centre) (Fin 1)) = Some NaN"
  unfolding hit_dist_iff sphere_hit_iff sphere_far_roots
  by (simp add: passes_bounds_def f_gt_def f_lt_NaN)

section \<open>The sampling loop\<close>

text \<open>The sample point and the direction toward it are computed and not read: a step of
  the loop depends on the solver call alone.\<close>

lemma cone_step_eq:
  "cone_step N test cone V R X Y i st =
     (case test (spiral_r N i) of
        NonFinite \<Rightarrow> None
      | Miss \<Rightarrow> Some st
      | Hit (uv', t) \<Rightarrow>
          Some (st\<lparr>uv_list := uv_list st @ [uv'],
                   minDistance := (if minDistance st > t then t else minDistance st),
                   t_dist := t,
                   nPoints := nPoints st + 1\<rparr>))"
  by (simp add: cone_step_def Let_def)

lemma cone_loop_frame:
  "cone_loop N test cone V R X Y i k st = cone_loop N test cone' V' R' X' Y' i k st"
  by (induction k arbitrary: i st)
    (auto simp: cone_step_eq split: outcome.splits option.splits)

text \<open>At the end of the loop \<^verbatim>\<open>t_dist\<close> is as it was when no call succeeded, and is
  the distance of the last call that succeeded otherwise.\<close>

lemma cone_loop_last:
  "cone_loop N test cone V R X Y i k st = Some st' \<Longrightarrow>
     ((\<forall>j. i \<le> j \<and> j < i + k \<longrightarrow> (\<forall>x. test (spiral_r N j) \<noteq> Hit x))
        \<and> t_dist st' = t_dist st \<and> nPoints st' = nPoints st)
     \<or> (\<exists>j uv'. i \<le> j \<and> j < i + k \<and> test (spiral_r N j) = Hit (uv', t_dist st')
          \<and> (\<forall>l. j < l \<and> l < i + k \<longrightarrow> (\<forall>x. test (spiral_r N l) \<noteq> Hit x)))"
proof (induction k arbitrary: i st)
  case 0
  then show ?case by auto
next
  case (Suc k)
  from Suc.prems obtain st1 where
    step: "cone_step N test cone V R X Y i st = Some st1" and
    rest: "cone_loop N test cone V R X Y (Suc i) k st1 = Some st'"
    by (auto split: option.splits)
  from Suc.IH[OF rest] show ?case
  proof
    assume a: "(\<forall>j. Suc i \<le> j \<and> j < Suc i + k \<longrightarrow> (\<forall>x. test (spiral_r N j) \<noteq> Hit x))
        \<and> t_dist st' = t_dist st1 \<and> nPoints st' = nPoints st1"
    show ?thesis
    proof (cases "test (spiral_r N i)")
      case NonFinite
      with step show ?thesis by (simp add: cone_step_eq)
    next
      case Miss
      with step have "st1 = st" by (simp add: cone_step_eq)
      moreover have "\<forall>j. i \<le> j \<and> j < i + Suc k \<longrightarrow> (\<forall>x. test (spiral_r N j) \<noteq> Hit x)"
      proof (intro allI impI)
        fix j x assume "i \<le> j \<and> j < i + Suc k"
        then consider "j = i" | "Suc i \<le> j \<and> j < Suc i + k" by force
        then show "test (spiral_r N j) \<noteq> Hit x"
          using Miss a by cases (simp, blast)
      qed
      ultimately show ?thesis using a by simp
    next
      case (Hit x)
      obtain uv' t where x: "x = (uv', t)" by (cases x)
      with Hit step have "t_dist st1 = t" by (auto simp: cone_step_eq)
      with a Hit x have "test (spiral_r N i) = Hit (uv', t_dist st')" by simp
      moreover have "\<forall>l. i < l \<and> l < i + Suc k \<longrightarrow> (\<forall>x. test (spiral_r N l) \<noteq> Hit x)"
        using a by auto
      ultimately show ?thesis by (intro disjI2 exI[of _ i] exI[of _ uv']) simp
    qed
  next
    assume "\<exists>j uv'. Suc i \<le> j \<and> j < Suc i + k \<and> test (spiral_r N j) = Hit (uv', t_dist st')
          \<and> (\<forall>l. j < l \<and> l < Suc i + k \<longrightarrow> (\<forall>x. test (spiral_r N l) \<noteq> Hit x))"
    then obtain j uv' where "Suc i \<le> j" "j < Suc i + k"
      "test (spiral_r N j) = Hit (uv', t_dist st')"
      "\<forall>l. j < l \<and> l < Suc i + k \<longrightarrow> (\<forall>x. test (spiral_r N l) \<noteq> Hit x)" by blast
    then show ?thesis by (intro disjI2 exI[of _ j] exI[of _ uv']) simp
  qed
qed

lemma cone_loop_const_Hit:
  "cone_loop N (\<lambda>r. Hit (uv', t)) cone V R X Y i (Suc k) st = Some st' \<Longrightarrow>
     uv_list st' = uv_list st @ replicate (Suc k) uv' \<and> t_dist st' = t \<and>
     nPoints st' = nPoints st + Suc k"
proof (induction k arbitrary: i st)
  case 0
  then show ?case by (auto simp: cone_step_eq)
next
  case (Suc k)
  from Suc.prems have
    "cone_loop N (\<lambda>r. Hit (uv', t)) cone V R X Y (Suc i) (Suc k)
       (st\<lparr>uv_list := uv_list st @ [uv'],
           minDistance := (if minDistance st > t then t else minDistance st),
           t_dist := t, nPoints := nPoints st + 1\<rparr>) = Some st'"
    by (simp add: cone_step_eq)
  from Suc.IH[OF this] show ?case by (simp add: replicate_app_Cons_same)
qed

lemma cone_loop_const_Hit_defined:
  "\<exists>st'. cone_loop N (\<lambda>r. Hit (uv', t)) cone V R X Y i k st = Some st'"
  by (induction k arbitrary: i st) (simp_all add: cone_step_eq)

lemma cone_loop_const_Miss:
  "cone_loop N (\<lambda>r. Miss) cone V R X Y i k st = Some st"
  by (induction k arbitrary: i) (simp_all add: cone_step_eq)

lemma area_fraction_all: "0 < n_points N \<Longrightarrow> area_fraction (n_points N) N = 1"
  by (cases N) simp_all

lemma area_fraction_none: "area_fraction 0 N = 0"
  by (cases N) simp_all

text \<open>A sampler whose solver call does not depend on the sample: all samples succeed or
  none does, so the quotient is 1 or 0 whichever way C++ divides.\<close>

lemma cone_sample_const:
  "cone_sample N (\<lambda>r. c) cone V uv =
     (case c of
        NonFinite \<Rightarrow> if n_points N = 0 then ConeMiss uv else ConeNonFinite
      | Miss \<Rightarrow> ConeMiss uv
      | Hit (uv', t) \<Rightarrow>
          if n_points N = 0 then ConeMiss uv
          else if t \<noteq> - 1 then ConeHit (uv @ replicate (n_points N) uv') t
          else ConeMiss (uv @ replicate (n_points N) uv'))"
proof (cases c)
  case NonFinite
  show ?thesis
  proof (cases "n_points N")
    case 0
    then show ?thesis
      by (simp add: NonFinite cone_sample_def Let_def cone_decide_def area_fraction_none)
  next
    case (Suc k)
    then show ?thesis
      by (simp add: NonFinite cone_sample_def Let_def cone_step_eq)
  qed
next
  case Miss
  then show ?thesis
    by (simp add: cone_sample_def Let_def cone_loop_const_Miss cone_decide_def area_fraction_none)
next
  case (Hit x)
  obtain uv' t where x: "x = (uv', t)" by (cases x)
  show ?thesis
  proof (cases "n_points N")
    case 0
    then show ?thesis
      by (simp add: Hit x cone_sample_def Let_def cone_decide_def area_fraction_none)
  next
    case (Suc k)
    let ?st0 = "\<lparr>uv_list = uv, minDistance = flt_max, t_dist = - 1, nPoints = 0\<rparr>"
    let ?R = "coneCircleR cone V"
    let ?X = "planeXAxis cone"
    let ?Y = "planeYAxis cone"
    obtain st' where
      st': "cone_loop N (\<lambda>r. Hit (uv', t)) cone V ?R ?X ?Y 1 (Suc k) ?st0 = Some st'"
      using cone_loop_const_Hit_defined by blast
    from cone_loop_const_Hit[OF st']
    have f: "uv_list st' = uv @ replicate (Suc k) uv'" "t_dist st' = t" "nPoints st' = Suc k"
      by simp_all
    have "area_fraction (nPoints st') N = 1"
      using area_fraction_all[of N] Suc f by simp
    then show ?thesis
      using st' f Suc by (simp add: Hit x cone_sample_def Let_def cone_decide_def)
  qed
qed

lemma hit_count_const:
  "card {i. 1 \<le> i \<and> i \<le> n \<and> (\<exists>x. c = Hit x)} = (if \<exists>x. c = Hit x then n else 0)"
proof (cases "\<exists>x. c = Hit x")
  case True
  then have "{i. 1 \<le> i \<and> i \<le> n \<and> (\<exists>x. c = Hit x)} = {1..n}" by auto
  with True show ?thesis by simp
next
  case False
  then show ?thesis by simp
qed

lemma cone_sample_last:
  assumes "cone_sample N test cone V uv = ConeHit uvs d"
  shows "last_hit_dist N test d"
proof -
  let ?st0 = "\<lparr>uv_list = uv, minDistance = flt_max, t_dist = - 1, nPoints = 0\<rparr>"
  let ?R = "coneCircleR cone V"
  let ?X = "planeXAxis cone"
  let ?Y = "planeYAxis cone"
  from assms obtain st' where
    st': "cone_loop N test cone V ?R ?X ?Y 1 (n_points N) ?st0 = Some st'" and
    dec: "cone_decide N st' = ConeHit uvs d"
    by (auto simp: cone_sample_def Let_def split: option.splits)
  from dec have d: "t_dist st' = d" "d \<noteq> - 1"
    by (auto simp: cone_decide_def Let_def split: if_splits)
  from cone_loop_last[OF st'] d
  obtain j uv' where j: "1 \<le> j" "j < 1 + n_points N" "test (spiral_r N j) = Hit (uv', d)"
    "\<forall>l. j < l \<and> l < 1 + n_points N \<longrightarrow> (\<forall>x. test (spiral_r N l) \<noteq> Hit x)"
    by auto
  then show ?thesis by (intro exI[of _ j] exI[of _ uv']) auto
qed

lemma tri_front:
  "intersect_triangle (cone_ray (z_cone ray_eps flt_max)) (tri_a 1) (tri_b 1) (tri_c 1)
     = Hit ((1 / 4, 1 / 4), 1)"
  by (simp add: intersect_triangle_def cone_ray_def ray3f_od_def z_cone_def tri_a_def tri_b_def
      tri_c_def vsub_def cross_def dot_def Let_def ray_eps_def flt_max_def)

lemma tri_behind:
  "intersect_triangle (cone_ray (z_cone (- 2) 2)) (tri_a (- 1)) (tri_b (- 1)) (tri_c (- 1))
     = Hit ((1 / 4, 1 / 4), - 1)"
  by (simp add: intersect_triangle_def cone_ray_def ray3f_od_def z_cone_def tri_a_def tri_b_def
      tri_c_def vsub_def cross_def dot_def Let_def)

lemma small_triangle_axis:
  "intersect_triangle (cone_ray (x_cone a)) s_a s_b s_c = Hit ((1 / 4, 1 / 4), 1)"
  by (simp add: intersect_triangle_def cone_ray_def ray3f_od_def x_cone_def s_a_def s_b_def
      s_c_def vsub_def cross_def dot_def Let_def ray_eps_def flt_max_def)

text \<open>The tests of the samplers at a point, a segment, a cylinder and a quad that the axis
  of the cone along the third coordinate meets.\<close>

lemma point_front:
  "intersect_point (cone_ray (z_cone ray_eps flt_max)) (Vec3 0 0 1) r = Hit ((0, 0), 1)"
  by (simp add: intersect_point_def cone_ray_def ray3f_od_def z_cone_def vsub_def vadd_def
      vscale_def dot_def Let_def ray_eps_def flt_max_def)

lemma point_behind:
  "intersect_point (cone_ray (z_cone (- 2) 2)) (Vec3 0 0 (- 1)) r = Hit ((0, 0), - 1)"
  by (simp add: intersect_point_def cone_ray_def ray3f_od_def z_cone_def vsub_def vadd_def
      vscale_def dot_def Let_def)

lemma line_front:
  "intersect_line (cone_ray (z_cone ray_eps flt_max)) seg_a seg_b (1 / 10) (1 / 10)
     = Hit ((1 / 2, 0), 1)"
  by (simp add: intersect_line_def cone_ray_def ray3f_od_def z_cone_def seg_a_def seg_b_def
      vsub_def vadd_def vscale_def dot_def clamp_def Let_def ray_eps_def flt_max_def)

lemma cylinder_front:
  "intersect_cylinder (=) (cone_ray (z_cone ray_eps flt_max)) seg_a seg_b (1 / 2) r1
     = Hit ((1 / 2, 0), 1 / 2)"
  by (simp add: intersect_cylinder_def intersect_infinite_cylinder_def clip_cap_def cone_ray_def
      ray3f_od_def z_cone_def seg_a_def seg_b_def normalize_def vlength_def cross_def vneg_def
      vsub_def vadd_def vscale_def dot_def clamp_def Let_def ray_eps_def flt_max_def sqrt4
      real_sqrt_divide)

lemma quad_front:
  "intersect_quad (cone_ray (z_cone ray_eps flt_max)) (tri_a 1) (tri_b 1) quad_c (tri_c 1)
     = Hit ((1 / 4, 1 / 4), 1)"
  by (simp add: intersect_quad_def intersect_triangle_def cone_ray_def ray3f_od_def z_cone_def
      tri_a_def tri_b_def tri_c_def quad_c_def vsub_def cross_def dot_def Let_def ray_eps_def
      flt_max_def)

text \<open>The decision reads the list, the last distance and the count, and the loop keeps
  two states that agree on these in agreement: \<^verbatim>\<open>minDistance\<close> is written and not
  read for anything else.\<close>

lemma cone_decide_reads:
  "sampler_out st = sampler_out st' \<Longrightarrow> cone_decide N st = cone_decide N st'"
  by (simp add: cone_decide_def sampler_out_def)

lemma cone_loop_minDistance:
  "sampler_out st = sampler_out st' \<Longrightarrow>
     map_option sampler_out (cone_loop N test cone V R X Y i k st)
       = map_option sampler_out (cone_loop N test cone V R X Y i k st')"
proof (induction k arbitrary: i st st')
  case 0
  then show ?case by simp
next
  case (Suc k)
  show ?case
  proof (cases "test (spiral_r N i)")
    case NonFinite
    then show ?thesis by (simp add: cone_step_eq)
  next
    case Miss
    with Suc.IH[OF Suc.prems] show ?thesis by (simp add: cone_step_eq)
  next
    case (Hit x)
    obtain uv' t where x: "x = (uv', t)" by (cases x)
    let ?upd = "\<lambda>s. s\<lparr>uv_list := uv_list s @ [uv'],
                   minDistance := (if minDistance s > t then t else minDistance s),
                   t_dist := t, nPoints := nPoints s + 1\<rparr>"
    have "sampler_out (?upd st) = sampler_out (?upd st')"
      using Suc.prems by (simp add: sampler_out_def)
    from Suc.IH[OF this] Hit x show ?thesis by (simp add: cone_step_eq)
  qed
qed

lemma cone_output_ignores_minDistance:
  "map_option (cone_decide N) (cone_loop N test cone V R X Y i k (st\<lparr>minDistance := m\<rparr>))
     = map_option (cone_decide N) (cone_loop N test cone V R X Y i k st)"
proof -
  have "sampler_out (st\<lparr>minDistance := m\<rparr>) = sampler_out st"
    by (simp add: sampler_out_def)
  from cone_loop_minDistance[OF this, of N test cone V R X Y i k]
  show ?thesis
    by (cases "cone_loop N test cone V R X Y i k (st\<lparr>minDistance := m\<rparr>)";
        cases "cone_loop N test cone V R X Y i k st")
       (auto intro: cone_decide_reads)
qed

lemma success_dists_const_Hit:
  "success_dists (\<lambda>i. Hit (uv, t)) k = replicate k t"
  by (induction k) (simp_all add: replicate_append_same)

section \<open>A sample ray off the axis\<close>

lemma small_square: "\<bar>c\<bar> \<le> (3 / 64 :: real) \<Longrightarrow> c * c \<le> 9 / 4096"
proof -
  assume a: "\<bar>c\<bar> \<le> 3 / 64"
  have "c * c = \<bar>c\<bar> * \<bar>c\<bar>" by simp
  also have "\<dots> \<le> (3 / 64) * (3 / 64)" using a by (intro mult_mono) simp_all
  finally show ?thesis by simp
qed

text \<open>A ray from the origin that passes the plane of the small triangle at distance 1 from
  the axis misses the triangle.\<close>

lemma off_axis_ray_misses:
  assumes k: "0 < k" and cs: "c * c + s * s = 1"
  shows "intersect_triangle \<lparr>ray_o = Vec3 0 0 0, ray_d = Vec3 k (- (k * c)) (k * s),
            ray_tmin = lo, ray_tmax = hi\<rparr> s_a s_b s_c = Miss"
proof -
  let ?d = "Vec3 k (- (k * c)) (k * s)"
  have det: "dot (vsub s_b s_a) (cross ?d (vsub s_c s_a)) = - k / 256"
    by (simp add: s_a_def s_b_def s_c_def vsub_def cross_def dot_def)
  have u: "dot (vsub (Vec3 0 0 0) s_a) (cross ?d (vsub s_c s_a)) * (1 / (- k / 256))
      = 1 / 4 - 16 * c"
    using k by (simp add: s_a_def s_b_def s_c_def vsub_def cross_def dot_def field_simps)
  have v: "dot ?d (cross (vsub (Vec3 0 0 0) s_a) (vsub s_b s_a)) * (1 / (- k / 256))
      = 1 / 4 + 16 * s"
    using k by (simp add: s_a_def s_b_def s_c_def vsub_def cross_def dot_def field_simps)
  have bad: "1 / 4 - 16 * c < 0 \<or> 1 / 4 - 16 * c > 1 \<or> 1 / 4 + 16 * s < 0 \<or>
      (1 / 4 - 16 * c) + (1 / 4 + 16 * s) > 1"
  proof (rule ccontr)
    assume "\<not> ?thesis"
    then have b: "\<bar>c\<bar> \<le> 3 / 64" "\<bar>s\<bar> \<le> 3 / 64" by linarith+
    have "c * c \<le> 9 / 4096" "s * s \<le> 9 / 4096"
      using small_square[OF b(1)] small_square[OF b(2)] by blast+
    with cs show False by linarith
  qed
  from k have ne: "- k / 256 \<noteq> 0" by simp
  show ?thesis
    unfolding intersect_triangle_def Let_def ray3.simps det u v
    using bad ne by auto
qed

lemma spiral_r_last: "0 < n_points N \<Longrightarrow> spiral_r N (n_points N) = 1"
proof -
  assume "0 < n_points N"
  then have "1 \<le> real (n_points N)" by simp
  then have "0 < sqrt (real (n_points N) - 1 / 2)" by simp
  then show ?thesis by (simp add: spiral_r_def)
qed

lemma disc_L_pos: "0 < disc_L"
  by (simp add: disc_L_def vlength_def dot_def vsub_def vadd_def vmax_def s_a_def s_b_def s_c_def)

lemma x_cone_disc:
  "coneCircleV_triangle (x_cone a) s_a s_b s_c = Vec3 disc_L 0 0"
  "planeXAxis (x_cone a) = Vec3 0 (- 1) 0"
  "planeYAxis (x_cone a) = Vec3 0 0 1"
  by (simp_all add: coneCircleV_triangle_def planeXAxis_def planeYAxis_def x_cone_def disc_L_def
      vadd_def vscale_def vneg_def cross_def normalize_def vlength_def dot_def Let_def)

lemma x_cone_R: "coneCircleR (x_cone (pi / 4)) (Vec3 disc_L 0 0) = disc_L"
  using disc_L_pos
  by (simp add: coneCircleR_def x_cone_def vlength_def dot_def vsub_def tan_45)

text \<open>The direction toward the last point of the spiral, on the rim of the disc of a cone
  with the half-angle \<open>pi / 4\<close>.\<close>

lemma last_direction:
  assumes "0 < n_points N"
  shows "\<exists>k c s. 0 < k \<and> c * c + s * s = 1 \<and>
     sample_direction N (x_cone (pi / 4)) (Vec3 disc_L 0 0) disc_L (Vec3 0 (- 1) 0) (Vec3 0 0 1)
       (n_points N) = Vec3 k (- (k * c)) (k * s)"
proof -
  define th where
    "th = 2 * pi * real (n_points N) / ((sqrt 5 + 1) * (1 / 2) * ((sqrt 5 + 1) * (1 / 2)))"
  define pt where "pt = Vec3 disc_L (- (disc_L * cos th)) (disc_L * sin th)"
  have cs: "cos th * cos th + sin th * sin th = 1"
    using sin_cos_squared_add2[of th] by (simp add: power2_eq_square)
  have alg: "l * l + (- (l * c)) * (- (l * c)) + (l * s) * (l * s)
      = l * l * (1 + (c * c + s * s))"
    for l c s :: real by (simp add: algebra_simps)
  have "dot pt pt = disc_L * disc_L * (1 + (cos th * cos th + sin th * sin th))"
    unfolding pt_def dot_def vec3.sel by (rule alg)
  then have dd: "dot pt pt = 2 * (disc_L * disc_L)" by (simp add: cs)
  have len: "vlength pt = sqrt 2 * disc_L"
    using disc_L_pos by (simp add: vlength_def dd real_sqrt_mult)
  have dir: "sample_direction N (x_cone (pi / 4)) (Vec3 disc_L 0 0) disc_L (Vec3 0 (- 1) 0)
       (Vec3 0 0 1) (n_points N) = normalize pt"
    using assms
    by (simp add: sample_direction_def Let_def spiral_r_last th_def pt_def x_cone_def vadd_def
        vscale_def vsub_def)
  have "normalize pt = vscale pt (1 / (sqrt 2 * disc_L))"
    using disc_L_pos by (simp add: normalize_def Let_def len)
  also have "\<dots> = Vec3 (1 / sqrt 2) (- (1 / sqrt 2 * cos th)) (1 / sqrt 2 * sin th)"
    using disc_L_pos by (simp add: vscale_def pt_def)
  finally have "normalize pt
      = Vec3 (1 / sqrt 2) (- (1 / sqrt 2 * cos th)) (1 / sqrt 2 * sin th)" .
  with dir cs show ?thesis
    by (intro exI[of _ "1 / sqrt 2"] exI[of _ "cos th"] exI[of _ "sin th"]) simp
qed

section \<open>The cone sampler: claims\<close>

text \<open>C2. The claim: the cone sampler tests \<open>N\<close> distinct rays against the triangle, one
  from the cone origin toward each point of the spiral on the cone's disc, and its hit count
  is the number of those rays that hit. The code computes each such direction and then
  calls the solver with the axis ray every time. Here the cone has its axis along the first
  coordinate and the half-angle \<open>pi / 4\<close>, and the triangle is a small one around the axis
  at distance 1: every one of the \<open>N\<close> calls of the code succeeds, with the parameters of
  the axis ray, while the ray toward the last point of the spiral, on the rim of the disc,
  misses the triangle.\<close>

theorem cone_triangle_tests_axis_ray_only:
  "intersect_triangle_cone N (x_cone (pi / 4)) s_a s_b s_c [] =
     (if n_points N = 0 then ConeMiss []
      else ConeHit (replicate (n_points N) (1 / 4, 1 / 4)) 1) \<and>
   (n_points N = 0 \<or>
    intersect_triangle
      (spec_sample_ray N (x_cone (pi / 4))
         (coneCircleV_triangle (x_cone (pi / 4)) s_a s_b s_c) (n_points N))
      s_a s_b s_c = Miss)"
proof
  show "intersect_triangle_cone N (x_cone (pi / 4)) s_a s_b s_c [] =
     (if n_points N = 0 then ConeMiss []
      else ConeHit (replicate (n_points N) (1 / 4, 1 / 4)) 1)"
    by (simp add: intersect_triangle_cone_def Let_def cone_sample_const small_triangle_axis)
  show "n_points N = 0 \<or>
    intersect_triangle
      (spec_sample_ray N (x_cone (pi / 4))
         (coneCircleV_triangle (x_cone (pi / 4)) s_a s_b s_c) (n_points N))
      s_a s_b s_c = Miss"
  proof (cases "n_points N = 0")
    case True
    then show ?thesis by simp
  next
    case False
    then have "0 < n_points N" by simp
    from last_direction[OF this] obtain k c s where
      k: "0 < k" and cs: "c * c + s * s = 1" and
      d: "sample_direction N (x_cone (pi / 4)) (Vec3 disc_L 0 0) disc_L (Vec3 0 (- 1) 0)
            (Vec3 0 0 1) (n_points N) = Vec3 k (- (k * c)) (k * s)"
      by blast
    have "spec_sample_ray N (x_cone (pi / 4))
         (coneCircleV_triangle (x_cone (pi / 4)) s_a s_b s_c) (n_points N)
       = \<lparr>ray_o = Vec3 0 0 0, ray_d = Vec3 k (- (k * c)) (k * s),
          ray_tmin = ray_eps, ray_tmax = flt_max\<rparr>"
      by (simp add: spec_sample_ray_def x_cone_disc x_cone_R d)
         (simp add: cone_ray_def ray3f_od_def x_cone_def)
    with off_axis_ray_misses[OF k cs] show ?thesis by simp
  qed
qed

text \<open>C3. The claim: the cone sampler returns a hit if and only if the fraction of the
  sample rays that hit, the hit count over the sample count \<open>N\<close>, strictly exceeds 0.3; a
  fraction of exactly 0.3 and a run with no hit are misses. The code returns true only
  if, besides, \<^verbatim>\<open>t_dist != -1\<close>: \<open>-1\<close> is the value that \<^verbatim>\<open>t_dist\<close> starts with, taken
  for ``no test has written a distance'', and it is also a distance that a test can write.
  Here the cone has the bounds \<open>[-2, 2]\<close> and its axis meets the triangle at the
  parameter \<open>-1\<close>: every one of the \<open>N\<close> sample tests succeeds, so the hit count is \<open>N\<close>
  and the fraction is 1, and the sampler returns false. The same holds for the point
  sampler and the point \<open>(0, 0, -1)\<close>.\<close>

theorem all_samples_hit_yet_miss:
  "hit_count N (\<lambda>r. intersect_triangle (cone_ray (z_cone (- 2) 2))
       (tri_a (- 1)) (tri_b (- 1)) (tri_c (- 1))) = n_points N \<and>
   intersect_triangle_cone N (z_cone (- 2) 2) (tri_a (- 1)) (tri_b (- 1)) (tri_c (- 1)) []
     = ConeMiss (replicate (n_points N) (1 / 4, 1 / 4)) \<and>
   hit_count N (\<lambda>r. intersect_point (cone_ray (z_cone (- 2) 2)) (Vec3 0 0 (- 1)) r)
     = n_points N \<and>
   intersect_point_cone N (z_cone (- 2) 2) (Vec3 0 0 (- 1)) radius []
     = ConeMiss (replicate (n_points N) (0, 0))"
proof (intro conjI)
  show "hit_count N (\<lambda>r. intersect_triangle (cone_ray (z_cone (- 2) 2))
       (tri_a (- 1)) (tri_b (- 1)) (tri_c (- 1))) = n_points N"
    by (subst tri_behind, subst hit_count_const) (simp del: split_paired_Ex)
  show "intersect_triangle_cone N (z_cone (- 2) 2) (tri_a (- 1)) (tri_b (- 1)) (tri_c (- 1)) []
     = ConeMiss (replicate (n_points N) (1 / 4, 1 / 4))"
    by (simp add: intersect_triangle_cone_def Let_def cone_sample_const tri_behind)
  show "hit_count N (\<lambda>r. intersect_point (cone_ray (z_cone (- 2) 2)) (Vec3 0 0 (- 1)) r)
      = n_points N"
    by (subst point_behind, subst hit_count_const) (simp del: split_paired_Ex)
  show "intersect_point_cone N (z_cone (- 2) 2) (Vec3 0 0 (- 1)) radius []
     = ConeMiss (replicate (n_points N) (0, 0))"
  proof -
    have "intersect_point (cone_ray (z_cone (- 2) 2)) (Vec3 0 0 (- 1))
        = (\<lambda>r. Hit ((0, 0), - 1))"
      by (intro ext) (rule point_behind)
    then show ?thesis
      by (simp add: intersect_point_cone_def Let_def cone_sample_const)
  qed
qed

text \<open>C9. The claim: whenever a cone sampler (point, line, cylinder, triangle, quad)
  returns true, the distance it writes is the ray parameter of the last sample test that
  succeeded in the loop, not the minimum distance over all successful samples, and the
  minimum tracked in \<^verbatim>\<open>minDistance\<close> never reaches the output. Proved here: the distance
  written is the one of the last sample test that succeeded, for the five samplers; and
  the output of the loop and the decision after it is the same whatever value
  \<^verbatim>\<open>minDistance\<close> holds at any iteration of the loop.\<close>

theorem cone_dist_is_last_success:
  "(intersect_point_cone N cone p radius uv = ConeHit uvs d \<longrightarrow>
      last_hit_dist N (\<lambda>r. intersect_point (cone_ray cone) p r) d) \<and>
   (intersect_line_cone N cone p0 p1 r0 r1 uv = ConeHit uvs d \<longrightarrow>
      last_hit_dist N (\<lambda>r. intersect_line (cone_ray cone) p0 p1 r0 r1) d) \<and>
   (intersect_cylinder_cone equal_flt N cone p0 p1 r0 r1 uv = ConeHit uvs d \<longrightarrow>
      last_hit_dist N (\<lambda>r. intersect_cylinder equal_flt (cone_ray cone) p0 p1 r0 r1) d) \<and>
   (intersect_triangle_cone N cone p0 p1 p2 uv = ConeHit uvs d \<longrightarrow>
      last_hit_dist N (\<lambda>r. intersect_triangle (cone_ray cone) p0 p1 p2) d) \<and>
   (intersect_quad_cone N cone p0 p1 p2 p3 uv = ConeHit uvs d \<longrightarrow>
      last_hit_dist N (\<lambda>r. intersect_quad (cone_ray cone) p0 p1 p2 p3) d) \<and>
   map_option (cone_decide N) (cone_loop N test cone V R X Y i k (st\<lparr>minDistance := m\<rparr>))
     = map_option (cone_decide N) (cone_loop N test cone V R X Y i k st)"
  unfolding intersect_point_cone_def intersect_line_cone_def intersect_cylinder_cone_def
    intersect_triangle_cone_def intersect_quad_cone_def Let_def
  by (intro conjI impI cone_sample_last cone_output_ignores_minDistance)

text \<open>The theorem at a cone along the third axis with 16 samples and a point, a segment,
  a cylinder, a triangle and a quad that its axis meets: each sampler returns a hit, with
  the distance that the last of its 16 tests wrote.\<close>

theorem cone_dist_is_last_success_witness:
  "intersect_point_cone (IntPoints 16) (z_cone ray_eps flt_max) (Vec3 0 0 1) (1 / 10) []
     = ConeHit (replicate 16 (0, 0)) 1 \<and>
   last_hit_dist (IntPoints 16)
     (\<lambda>r. intersect_point (cone_ray (z_cone ray_eps flt_max)) (Vec3 0 0 1) r) 1 \<and>
   intersect_line_cone (IntPoints 16) (z_cone ray_eps flt_max) seg_a seg_b (1 / 10) (1 / 10) []
     = ConeHit (replicate 16 (1 / 2, 0)) 1 \<and>
   last_hit_dist (IntPoints 16)
     (\<lambda>r. intersect_line (cone_ray (z_cone ray_eps flt_max)) seg_a seg_b (1 / 10) (1 / 10)) 1 \<and>
   intersect_cylinder_cone (=) (IntPoints 16) (z_cone ray_eps flt_max) seg_a seg_b
       (1 / 2) (1 / 2) []
     = ConeHit (replicate 16 (1 / 2, 0)) (1 / 2) \<and>
   last_hit_dist (IntPoints 16)
     (\<lambda>r. intersect_cylinder (=) (cone_ray (z_cone ray_eps flt_max)) seg_a seg_b (1 / 2) (1 / 2))
     (1 / 2) \<and>
   intersect_triangle_cone (IntPoints 16) (z_cone ray_eps flt_max) (tri_a 1) (tri_b 1) (tri_c 1) []
     = ConeHit (replicate 16 (1 / 4, 1 / 4)) 1 \<and>
   last_hit_dist (IntPoints 16)
     (\<lambda>r. intersect_triangle (cone_ray (z_cone ray_eps flt_max)) (tri_a 1) (tri_b 1) (tri_c 1)) 1 \<and>
   intersect_quad_cone (IntPoints 16) (z_cone ray_eps flt_max) (tri_a 1) (tri_b 1) quad_c
       (tri_c 1) []
     = ConeHit (replicate 16 (1 / 4, 1 / 4)) 1 \<and>
   last_hit_dist (IntPoints 16)
     (\<lambda>r. intersect_quad (cone_ray (z_cone ray_eps flt_max)) (tri_a 1) (tri_b 1) quad_c (tri_c 1))
     1"
proof -
  let ?N = "IntPoints 16" and ?c = "z_cone ray_eps flt_max"
  have pt: "intersect_point (cone_ray ?c) (Vec3 0 0 1) = (\<lambda>r. Hit ((0, 0), 1))"
    by (intro ext) (rule point_front)
  have h1: "intersect_point_cone ?N ?c (Vec3 0 0 1) (1 / 10) [] = ConeHit (replicate 16 (0, 0)) 1"
    by (simp add: intersect_point_cone_def Let_def pt cone_sample_const)
  have h2: "intersect_line_cone ?N ?c seg_a seg_b (1 / 10) (1 / 10) []
     = ConeHit (replicate 16 (1 / 2, 0)) 1"
    by (simp add: intersect_line_cone_def Let_def cone_sample_const line_front)
  have h3: "intersect_cylinder_cone (=) ?N ?c seg_a seg_b (1 / 2) (1 / 2) []
     = ConeHit (replicate 16 (1 / 2, 0)) (1 / 2)"
    by (simp add: intersect_cylinder_cone_def Let_def cone_sample_const cylinder_front)
  have h4: "intersect_triangle_cone ?N ?c (tri_a 1) (tri_b 1) (tri_c 1) []
     = ConeHit (replicate 16 (1 / 4, 1 / 4)) 1"
    by (simp add: intersect_triangle_cone_def Let_def cone_sample_const tri_front)
  have h5: "intersect_quad_cone ?N ?c (tri_a 1) (tri_b 1) quad_c (tri_c 1) []
     = ConeHit (replicate 16 (1 / 4, 1 / 4)) 1"
    by (simp add: intersect_quad_cone_def Let_def cone_sample_const quad_front)
  note th = cone_dist_is_last_success[where N = ?N and cone = ?c and uv = "[]"]
  from th[where p = "Vec3 0 0 1" and radius = "1 / 10" and uvs = "replicate 16 (0, 0)"
      and d = 1, THEN conjunct1] h1
  have l1: "last_hit_dist ?N (\<lambda>r. intersect_point (cone_ray ?c) (Vec3 0 0 1) r) 1"
    by blast
  from th[where ?p0.0 = seg_a and ?p1.0 = seg_b and ?r0.0 = "1 / 10" and ?r1.0 = "1 / 10"
      and uvs = "replicate 16 (1 / 2, 0)" and d = 1, THEN conjunct2, THEN conjunct1] h2
  have l2: "last_hit_dist ?N
      (\<lambda>r. intersect_line (cone_ray ?c) seg_a seg_b (1 / 10) (1 / 10)) 1"
    by blast
  from th[where equal_flt = "(=)" and ?p0.0 = seg_a and ?p1.0 = seg_b and ?r0.0 = "1 / 2"
      and ?r1.0 = "1 / 2" and uvs = "replicate 16 (1 / 2, 0)" and d = "1 / 2",
      THEN conjunct2, THEN conjunct2, THEN conjunct1] h3
  have l3: "last_hit_dist ?N
      (\<lambda>r. intersect_cylinder (=) (cone_ray ?c) seg_a seg_b (1 / 2) (1 / 2)) (1 / 2)"
    by blast
  from th[where ?p0.0 = "tri_a 1" and ?p1.0 = "tri_b 1" and ?p2.0 = "tri_c 1"
      and uvs = "replicate 16 (1 / 4, 1 / 4)" and d = 1,
      THEN conjunct2, THEN conjunct2, THEN conjunct2, THEN conjunct1] h4
  have l4: "last_hit_dist ?N
      (\<lambda>r. intersect_triangle (cone_ray ?c) (tri_a 1) (tri_b 1) (tri_c 1)) 1"
    by blast
  from th[where ?p0.0 = "tri_a 1" and ?p1.0 = "tri_b 1" and ?p2.0 = quad_c and ?p3.0 = "tri_c 1"
      and uvs = "replicate 16 (1 / 4, 1 / 4)" and d = 1,
      THEN conjunct2, THEN conjunct2, THEN conjunct2, THEN conjunct2, THEN conjunct1] h5
  have l5: "last_hit_dist ?N
      (\<lambda>r. intersect_quad (cone_ray ?c) (tri_a 1) (tri_b 1) quad_c (tri_c 1)) 1"
    by blast
  from h1 l1 h2 l2 h3 l3 h4 l4 h5 l5 show ?thesis by (intro conjI)
qed

text \<open>The claim as stated fails in its second part: at the triangle in front of the cone
  the 16 sample tests all succeed with the distance 1, and the distance written, 1, is the
  minimum distance over all successful samples.\<close>

theorem cone_dist_is_minimum_counterexample:
  "intersect_triangle_cone (IntPoints 16) (z_cone ray_eps flt_max) (tri_a 1) (tri_b 1) (tri_c 1) []
     = ConeHit (replicate 16 (1 / 4, 1 / 4)) 1 \<and>
   Min (set (triangle_sample_dists (IntPoints 16) (z_cone ray_eps flt_max)
               (tri_a 1) (tri_b 1) (tri_c 1))) = 1"
  by (simp add: triangle_sample_dists_def tri_front success_dists_const_Hit
      intersect_triangle_cone_def Let_def cone_sample_const)

text \<open>C10. The claim: the cone-point test does not depend on the point's radius argument:
  with the other inputs equal, any two radius values give the same flag, the same distance
  and the same list of parameters, because each sample test gets the spiral radius of
  the sample as the point radius, and the radius argument is read only for the disc center,
  which is not used.\<close>

theorem cone_point_ignores_radius:
  "intersect_point_cone N cone p radius uv = intersect_point_cone N cone p radius' uv"
  unfolding intersect_point_cone_def cone_sample_def Let_def
  by (subst cone_loop_frame) (rule refl)

section \<open>The ray solvers: claims\<close>

text \<open>C4. The claim: for the ray from \<open>(0, 0, -5)\<close> along \<open>(0, 0, 1)\<close> with the default
  bounds, the solver finds the unit sphere at the origin at distance 4, with \<open>u\<close> in
  \<open>[0, 1)\<close> and \<open>v\<close> in \<open>[0, 1]\<close>. The code checks the near root 4 against the bounds, then
  assigns the far root to the same variable and reports it: the distance it writes is 6,
  the point where the ray leaves the sphere.\<close>

theorem sphere_reports_far_root:
  "intersect_sphere (single_ray (z_ray (- 5))) (single_vec centre) (Fin 1)
     = Hit ((Fin 0, Fin 0), Fin 6) \<and>
   sphere_roots (single_ray (z_ray (- 5))) (single_vec centre) (Fin 1) = (Fin 4, Fin 6)"
  by (simp add: intersect_sphere_def sphere_roots_def sphere_dis_def single_eval z_ray_def
      centre_def f32_eval round32_eval sqrt4 atan2_def pif_def)

text \<open>C5. The claim: the sphere solver returns true only if both roots of the quadratic
  lie within the ray's bounds, and so returns false for every ray whose origin is strictly
  inside the sphere. Proved here, of the roots as the code computes them: when the solver
  returns true, each of the two roots has passed the bounds check on its own (for a root
  that is a number that is to lie within the bounds; a NaN passes), and whenever the near
  root is below \<^verbatim>\<open>tmin\<close> the solver returns false, so the far root is no fallback.\<close>

theorem sphere_hit_needs_both_roots:
  "(intersect_sphere ray p r = Hit (uv, t) \<longrightarrow>
      passes_bounds ray (fst (sphere_roots ray p r)) \<and>
      passes_bounds ray (snd (sphere_roots ray p r))) \<and>
   (f_lt (fst (sphere_roots ray p r)) (ray_tmin ray) \<longrightarrow> intersect_sphere ray p r = Miss)"
proof (rule conjI; rule impI)
  assume "intersect_sphere ray p r = Hit (uv, t)"
  then have "\<exists>uv. intersect_sphere ray p r = Hit (uv, t)" by blast
  then show "passes_bounds ray (fst (sphere_roots ray p r)) \<and>
      passes_bounds ray (snd (sphere_roots ray p r))"
    unfolding sphere_hit_iff by simp
next
  assume "f_lt (fst (sphere_roots ray p r)) (ray_tmin ray)"
  then show "intersect_sphere ray p r = Miss"
    unfolding sphere_miss_iff by (simp add: passes_bounds_def)
qed

text \<open>The theorem at the ray of the spec's scenario, a hit whose roots 4 and 6 both pass
  the bounds check, and at the ray that starts at the centre of the sphere, whose near
  root \<open>-1\<close> is below \<^verbatim>\<open>tmin\<close>: a miss, with the far root 1 within the bounds.\<close>

theorem sphere_hit_needs_both_roots_witness:
  "intersect_sphere (single_ray (z_ray (- 5))) (single_vec centre) (Fin 1)
     = Hit ((Fin 0, Fin 0), Fin 6) \<and>
   passes_bounds (single_ray (z_ray (- 5)))
     (fst (sphere_roots (single_ray (z_ray (- 5))) (single_vec centre) (Fin 1))) \<and>
   passes_bounds (single_ray (z_ray (- 5)))
     (snd (sphere_roots (single_ray (z_ray (- 5))) (single_vec centre) (Fin 1))) \<and>
   f_lt (fst (sphere_roots (single_ray (z_ray 0)) (single_vec centre) (Fin 1)))
     (ray_tmin (single_ray (z_ray 0))) \<and>
   intersect_sphere (single_ray (z_ray 0)) (single_vec centre) (Fin 1) = Miss"
proof -
  have near: "f_lt (fst (sphere_roots (single_ray (z_ray 0)) (single_vec centre) (Fin 1)))
     (ray_tmin (single_ray (z_ray 0)))"
    unfolding sphere_centre_roots by (simp add: single_eval z_ray_def round32_eval)
  from sphere_hit_needs_both_roots[of "single_ray (z_ray (- 5))" "single_vec centre" "Fin 1"
      "(Fin 0, Fin 0)" "Fin 6"]
    sphere_hit_needs_both_roots[of "single_ray (z_ray 0)" "single_vec centre" "Fin 1"]
    sphere_scenario_hit near
  show ?thesis by simp
qed

text \<open>The claim as stated fails three times. From the centre of the unit sphere with the
  bounds \<open>[-2, 2]\<close> both roots, \<open>-1\<close> and \<open>1\<close>, are within the bounds, and the solver
  returns true for an origin inside the sphere. The origin of the grazing ray is strictly
  inside its sphere and \<^verbatim>\<open>tmin\<close> is 0, and the solver returns true with the distance 0.
  For the far ray the solver returns true with a distance that is a NaN: both roots are
  NaN, which lie within no bounds.\<close>

theorem sphere_true_outside_claim_counterexample:
  "dot (vsub (ray_o (z_ray 0)) centre) (vsub (ray_o (z_ray 0)) centre) < 1 * 1 \<and>
   intersect_sphere ((single_ray (z_ray 0))\<lparr>ray_tmin := Fin (- 2), ray_tmax := Fin 2\<rparr>)
      (single_vec centre) (Fin 1) = Hit ((Fin 0, Fin 0), Fin 1) \<and>
   dot (vsub (ray_o grazing_ray) centre) (vsub (ray_o grazing_ray) centre)
      < grazing_radius * grazing_radius \<and>
   hit_dist (intersect_sphere (single_ray grazing_ray) (single_vec centre)
      (round32 grazing_radius)) = Some (Fin 0) \<and>
   hit_dist (intersect_sphere (single_ray far_ray) (single_vec centre) (Fin 1)) = Some NaN \<and>
   sphere_roots (single_ray far_ray) (single_vec centre) (Fin 1) = (NaN, NaN)"
proof -
  have "dot (vsub (ray_o (z_ray 0)) centre) (vsub (ray_o (z_ray 0)) centre) < 1 * 1"
    by (simp add: z_ray_def ray3f_od_def centre_def vsub_def dot_def)
  moreover have "dot (vsub (ray_o grazing_ray) centre) (vsub (ray_o grazing_ray) centre)
      < grazing_radius * grazing_radius"
    by (simp add: grazing_ray_def grazing_radius_def centre_def vsub_def dot_def)
  ultimately show ?thesis
    using sphere_centre_wide_hit sphere_grazing_hit sphere_far_hit sphere_far_roots(1)
    by simp
qed

text \<open>C8. The claim: the result of the ray-cylinder solver does not depend on the radius
  \<^verbatim>\<open>r1\<close> of the second endpoint: the flag, the parameters and the distance are the same
  for any two values of it.\<close>

theorem cylinder_ignores_r1:
  "intersect_cylinder equal_flt ray p0 p1 r0 r1 = intersect_cylinder equal_flt ray p0 p1 r0 r1'"
  by (simp add: intersect_cylinder_def)

section \<open>The distance to a quad: claims\<close>

text \<open>C6. The claim: on a quad with \<^verbatim>\<open>p2 \<noteq> p3\<close> the overlap test returns true if and
  only if one of the two triangles \<^verbatim>\<open>(p0, p1, p3)\<close> and \<^verbatim>\<open>(p2, p3, p1)\<close> is within the
  maximum distance of the position. The code negates the test of the second triangle. Here
  the position is at distance 10 from the unit square and the maximum distance is 1:
  neither triangle is within it, and the quad test returns true, with the caller's
  \<^verbatim>\<open>uv\<close> reflected and \<^verbatim>\<open>dist\<close> as it was.\<close>

theorem overlap_quad_hit_when_both_miss:
  "q2 \<noteq> q3 \<and>
   overlap_triangle far_pos 1 q0 q1 q3 0 0 0 = Miss \<and>
   overlap_triangle far_pos 1 q2 q3 q1 0 0 0 = Miss \<and>
   overlap_quad far_pos 1 q0 q1 q2 q3 0 0 0 0 (0, 0) 0 = Some (True, (1, 1), 0)"
  by (simp add: overlap_quad_def overlap_triangle_def closestuv_triangle_def q0_def q1_def q2_def
      q3_def far_pos_def vsub_def vadd_def vscale_def dot_def one_minus_def Let_def)

section \<open>Further properties of the solvers\<close>

text \<open>Two of the spec's scenarios for the slab test: the ray from \<open>(0, 0, -5)\<close> along the
  third axis hits the unit box, and the ray from \<open>(5, 5, 5)\<close> along the first axis does
  not.\<close>

theorem slab_test_scenarios:
  "intersect_bbox (single_ray (z_ray (- 5))) (single_box unit_box) \<and>
   \<not> intersect_bbox (single_ray (ray3f_od (Vec3 5 5 5) (Vec3 1 0 0))) (single_box unit_box)"
  by (simp add: intersect_bbox_def single_eval z_ray_def unit_box_def f32_eval round32_eval)

text \<open>The sample tests of the point sampler differ in the radius they pass to the solver,
  and what the solver writes does not depend on it: of two sample tests of one call,
  either one fails or both write the same parameters and the same distance. (The tests of
  the other four samplers are one and the same call.)\<close>

theorem point_tests_report_one_distance:
  "hit_dist (intersect_point ray p r) = None \<or> hit_dist (intersect_point ray p r') = None \<or>
   intersect_point ray p r = intersect_point ray p r'"
  by (simp add: intersect_point_def Let_def)

text \<open>The overlap test of two boxes is symmetric.\<close>

theorem overlap_bbox_boxes_symmetric:
  "overlap_bbox_boxes a b = overlap_bbox_boxes b a"
  by (auto simp: overlap_bbox_boxes_def)

text \<open>The Cramer rule behind the triangle solver, by components.\<close>

lemma cramer:
  fixes D U V T tx ty tz dx dy dz e1x e1y e1z e2x e2y e2z :: real
  assumes det: "D \<noteq> 0"
    and D: "D = e1x * (dy * e2z - dz * e2y) + e1y * (dz * e2x - dx * e2z)
              + e1z * (dx * e2y - dy * e2x)"
    and U: "U = tx * (dy * e2z - dz * e2y) + ty * (dz * e2x - dx * e2z)
              + tz * (dx * e2y - dy * e2x)"
    and V: "V = dx * (ty * e1z - tz * e1y) + dy * (tz * e1x - tx * e1z)
              + dz * (tx * e1y - ty * e1x)"
    and T: "T = e2x * (ty * e1z - tz * e1y) + e2y * (tz * e1x - tx * e1z)
              + e2z * (tx * e1y - ty * e1x)"
  shows "tx + dx * (T / D) = e1x * (U / D) + e2x * (V / D)"
    and "ty + dy * (T / D) = e1y * (U / D) + e2y * (V / D)"
    and "tz + dz * (T / D) = e1z * (U / D) + e2z * (V / D)"
proof -
  have "tx * D + dx * T = e1x * U + e2x * V" unfolding D U V T by algebra
  then show "tx + dx * (T / D) = e1x * (U / D) + e2x * (V / D)"
    using det by (simp add: field_simps)
  have "ty * D + dy * T = e1y * U + e2y * V" unfolding D U V T by algebra
  then show "ty + dy * (T / D) = e1y * (U / D) + e2y * (V / D)"
    using det by (simp add: field_simps)
  have "tz * D + dz * T = e1z * U + e2z * V" unfolding D U V T by algebra
  then show "tz + dz * (T / D) = e1z * (U / D) + e2z * (V / D)"
    using det by (simp add: field_simps)
qed

text \<open>Triangle barycentric validity: a hit of the triangle solver has parameters with
  \<open>u \<ge> 0\<close>, \<open>v \<ge> 0\<close> and \<open>u + v \<le> 1\<close>, a distance within the ray's bounds, and the point
  of the triangle at the parameters is the point of the ray at the distance.\<close>

theorem triangle_hit_point:
  assumes "intersect_triangle ray p0 p1 p2 = Hit (uv, t)"
  shows "0 \<le> fst uv \<and> 0 \<le> snd uv \<and> fst uv + snd uv \<le> 1 \<and>
         ray_tmin ray \<le> t \<and> t \<le> ray_tmax ray \<and>
         triangle_point p0 p1 p2 uv = ray_point ray t"
proof -
  define D where "D = dot (vsub p1 p0) (cross (ray_d ray) (vsub p2 p0))"
  define U where "U = dot (vsub (ray_o ray) p0) (cross (ray_d ray) (vsub p2 p0))"
  define V where "V = dot (ray_d ray) (cross (vsub (ray_o ray) p0) (vsub p1 p0))"
  define T where "T = dot (vsub p2 p0) (cross (vsub (ray_o ray) p0) (vsub p1 p0))"
  from assms have D0: "D \<noteq> 0" and uv: "uv = (U / D, V / D)" and t: "t = T / D"
    and rng: "0 \<le> U / D" "0 \<le> V / D" "U / D + V / D \<le> 1" "ray_tmin ray \<le> T / D"
      "T / D \<le> ray_tmax ray"
    unfolding intersect_triangle_def Let_def D_def[symmetric] U_def[symmetric] V_def[symmetric]
      T_def[symmetric]
    by (auto split: if_splits)
  note c = cramer[OF D0, where U = U and V = V and T = T
      and tx = "vx (ray_o ray) - vx p0" and ty = "vy (ray_o ray) - vy p0"
      and tz = "vz (ray_o ray) - vz p0"
      and dx = "vx (ray_d ray)" and dy = "vy (ray_d ray)" and dz = "vz (ray_d ray)"
      and ?e1x.0 = "vx p1 - vx p0" and ?e1y.0 = "vy p1 - vy p0" and ?e1z.0 = "vz p1 - vz p0"
      and ?e2x.0 = "vx p2 - vx p0" and ?e2y.0 = "vy p2 - vy p0" and ?e2z.0 = "vz p2 - vz p0"]
  have eqs: "vx (ray_o ray) - vx p0 + vx (ray_d ray) * (T / D)
        = (vx p1 - vx p0) * (U / D) + (vx p2 - vx p0) * (V / D)"
      "vy (ray_o ray) - vy p0 + vy (ray_d ray) * (T / D)
        = (vy p1 - vy p0) * (U / D) + (vy p2 - vy p0) * (V / D)"
      "vz (ray_o ray) - vz p0 + vz (ray_d ray) * (T / D)
        = (vz p1 - vz p0) * (U / D) + (vz p2 - vz p0) * (V / D)"
    by (rule c; simp add: D_def U_def V_def T_def dot_def cross_def vsub_def)+
  have "triangle_point p0 p1 p2 (U / D, V / D) = ray_point ray (T / D)"
    using eqs by (simp add: triangle_point_def ray_point_def vadd_def vscale_def algebra_simps)
  with rng uv t show ?thesis by simp
qed

theorem triangle_hit_point_witness:
  "intersect_triangle (cone_ray (z_cone ray_eps flt_max)) (tri_a 1) (tri_b 1) (tri_c 1)
     = Hit ((1 / 4, 1 / 4), 1) \<and>
   triangle_point (tri_a 1) (tri_b 1) (tri_c 1) (1 / 4, 1 / 4)
     = ray_point (cone_ray (z_cone ray_eps flt_max)) 1"
  using triangle_hit_point[OF tri_front] tri_front by simp

text \<open>A quad whose last two corners coincide is the triangle \<^verbatim>\<open>(p0, p1, p3)\<close>.\<close>

theorem degenerate_quad_is_triangle:
  "intersect_quad ray p0 p1 p3 p3 = intersect_triangle ray p0 p1 p3"
  by (simp add: intersect_quad_def)

lemma tri_narrow:
  assumes "m \<le> ray_tmax ray"
  shows "intersect_triangle (ray\<lparr>ray_tmax := m\<rparr>) p0 p1 p2 =
     (case intersect_triangle ray p0 p1 p2 of
        Hit (uv, t) \<Rightarrow> if t \<le> m then Hit (uv, t) else Miss
      | r \<Rightarrow> r)"
  using assms by (auto simp: intersect_triangle_def Let_def)

lemma tri_le_tmax: "intersect_triangle ray p0 p1 p2 = Hit (uv, t) \<Longrightarrow> t \<le> ray_tmax ray"
  by (auto simp: intersect_triangle_def Let_def split: if_splits)

lemma tri_not_nonfinite: "intersect_triangle ray p0 p1 p2 \<noteq> NonFinite"
  by (auto simp: intersect_triangle_def Let_def)

text \<open>The quad solver on a quad with \<^verbatim>\<open>p2 \<noteq> p3\<close>: a hit exactly when the ray hits one
  of the two triangles, and the distance it reports is not above the distance of either
  triangle's hit.\<close>

theorem quad_either_triangle_nearest:
  assumes "p2 \<noteq> p3"
  shows "((\<exists>x. intersect_quad ray p0 p1 p2 p3 = Hit x) \<longleftrightarrow>
            (\<exists>x. intersect_triangle ray p0 p1 p3 = Hit x) \<or>
            (\<exists>x. intersect_triangle ray p2 p3 p1 = Hit x)) \<and>
         (\<forall>uv t. intersect_quad ray p0 p1 p2 p3 = Hit (uv, t) \<longrightarrow>
            (\<forall>uv1 t1. intersect_triangle ray p0 p1 p3 = Hit (uv1, t1) \<longrightarrow> t \<le> t1) \<and>
            (\<forall>uv2 t2. intersect_triangle ray p2 p3 p1 = Hit (uv2, t2) \<longrightarrow> t \<le> t2))"
proof (cases "intersect_triangle ray p0 p1 p3")
  case NonFinite
  then show ?thesis using tri_not_nonfinite by blast
next
  case Miss
  then show ?thesis
    using assms by (auto simp: intersect_quad_def Let_def split: outcome.splits)
next
  case (Hit x)
  obtain uv1 t1 where x: "x = (uv1, t1)" by (cases x)
  have le: "t1 \<le> ray_tmax ray" using Hit x by (auto dest: tri_le_tmax)
  show ?thesis
    using assms Hit x tri_narrow[OF le, of p2 p3 p1]
    by (auto simp: intersect_quad_def Let_def split: outcome.splits if_splits)
qed

theorem quad_either_triangle_nearest_witness:
  "q2 \<noteq> q3 \<and> intersect_triangle (z_ray (- 5)) q0 q1 q3 = Hit ((0, 0), 5) \<and>
   (\<exists>x. intersect_quad (z_ray (- 5)) q0 q1 q2 q3 = Hit x)"
proof -
  have ne: "q2 \<noteq> q3" by (simp add: q2_def q3_def)
  have h: "intersect_triangle (z_ray (- 5)) q0 q1 q3 = Hit ((0, 0), 5)"
    by (simp add: intersect_triangle_def z_ray_def ray3f_od_def q0_def q1_def q3_def vsub_def
        cross_def dot_def Let_def ray_eps_def flt_max_def)
  from quad_either_triangle_nearest[OF ne, of "z_ray (- 5)" q0 q1] h ne
  show ?thesis by simp
qed

section \<open>The cone against a box: array reads\<close>

lemma arr3_Some: "k \<le> 2 \<Longrightarrow> \<exists>v. arr3 a k = Some v"
  by (auto simp: arr3_def)

lemma edge_maximum_Some:
  assumes "k0 \<le> 2"
  shows "edge_maximum cone cca bcv maxX maxPmV s k0 \<noteq> None"
proof -
  have k1: "(k0 + 1) mod 3 \<le> 2" and k2: "((k0 + 1) mod 3 + 1) mod 3 \<le> 2" by simp_all
  from arr3_Some[OF k1, of maxPmV] arr3_Some[OF k2, of maxPmV] arr3_Some[OF assms, of "dir cone"]
    arr3_Some[OF k1, of "dir cone"] arr3_Some[OF k2, of "dir cone"]
  show ?thesis
    by (auto simp: edge_maximum_def Let_def)
qed

lemma gradient_ascent_Some:
  assumes "next_k0 polygon iMax \<le> 2" and "prev_k0 polygon iMax \<le> 2"
  shows "gradient_ascent cone cca box_e bcv cddbc polygon iMax (polygon ! iMax) \<noteq> None"
proof -
  from arr3_Some[OF assms(1), of "dir cone"]
    arr3_Some[OF assms(1), of "PmV box_e bcv (polygon ! iMax)"]
    arr3_Some[OF assms(2), of "dir cone"]
    arr3_Some[OF assms(2), of "PmV box_e bcv (polygon ! iMax)"]
    edge_maximum_Some[OF assms(1)] edge_maximum_Some[OF assms(2)]
  show ?thesis
    unfolding gradient_ascent_def Let_def next_k0_def[symmetric] prev_k0_def[symmetric]
    by (auto simp: next_k0_def prev_k0_def)
qed

text \<open>Every two neighbours in every polygon of the table are the ends of an edge of the
  box: their indices differ by 1, 2 or 4.\<close>

lemma edges_ok_table:
  "edges_ok [1, 5, 4, 6, 2, 3]"
  "edges_ok [0, 2, 3, 1, 5, 4]"
  "edges_ok [0, 2, 3, 7, 5, 4]"
  "edges_ok [0, 4, 6, 2, 3, 1]"
  "edges_ok [0, 2, 3, 1]"
  "edges_ok [0, 2, 3, 7, 5, 1]"
  "edges_ok [0, 4, 6, 7, 3, 1]"
  "edges_ok [0, 2, 6, 7, 3, 1]"
  "edges_ok [0, 2, 6, 7, 5, 1]"
  "edges_ok [0, 1, 5, 4, 6, 2]"
  "edges_ok [0, 1, 5, 4]"
  "edges_ok [0, 1, 3, 7, 5, 4]"
  "edges_ok [0, 4, 6, 2]"
  "edges_ok [1, 3, 7, 5]"
  "edges_ok [0, 4, 6, 7, 3, 2]"
  "edges_ok [2, 6, 7, 3]"
  "edges_ok [1, 3, 2, 6, 7, 5]"
  "edges_ok [0, 1, 5, 7, 6, 2]"
  "edges_ok [0, 1, 5, 7, 6, 4]"
  "edges_ok [0, 1, 3, 7, 6, 4]"
  "edges_ok [0, 4, 5, 7, 6, 2]"
  "edges_ok [4, 5, 7, 6]"
  "edges_ok [1, 3, 7, 6, 4, 5]"
  "edges_ok [0, 4, 5, 7, 3, 2]"
  "edges_ok [2, 6, 4, 5, 7, 3]"
  "edges_ok [1, 3, 2, 6, 4, 5]"
  by code_simp+

lemma edges_ok_nil: "edges_ok []"
  by (simp add: edges_ok_def)

lemma edges_ok_polygon: "edges_ok (AABBPolygon type)"
  unfolding AABBPolygon_def
  by (simp only: if_distrib[where f = edges_ok] edges_ok_table edges_ok_nil if_cancel)

lemma polygon_edges:
  assumes "i < length (AABBPolygon type)"
  shows "next_k0 (AABBPolygon type) i \<le> 2 \<and> prev_k0 (AABBPolygon type) i \<le> 2"
  using edges_ok_polygon[of type] assms by (simp add: edges_ok_def list_all_iff)

text \<open>\<^verbatim>\<open>(iMax, jMax)\<close> at the end of the loop is a position of the polygon and the corner
  there.\<close>

lemma test_points_index:
  "test_points cone box_e bcv cddbc cca js i m = Scanned (Some (a, b)) \<Longrightarrow>
     m = Some (a, b) \<or> (\<exists>k < length js. a = i + k \<and> b = js ! k)"
proof (induction js arbitrary: i m)
  case Nil
  then show ?case by simp
next
  case (Cons j js)
  show ?case
  proof (cases "f_gt (coneDirDOTPmV cone box_e cddbc j) (Fin 0)")
    case False
    with Cons.prems have "test_points cone box_e bcv cddbc cca js (Suc i) m
        = Scanned (Some (a, b))" by simp
    from Cons.IH[OF this] show ?thesis by fastforce
  next
    case True
    with Cons.prems obtain m' where
      r: "test_points cone box_e bcv cddbc cca js (Suc i) m' = Scanned (Some (a, b))" and
      m': "m' = m \<or> m' = Some (i, j)"
      by (auto simp: Let_def split: if_splits option.splits)
    from Cons.IH[OF r] m' show ?thesis by fastforce
  qed
qed

text \<open>The culling test reads its three-element arrays within their bounds: it returns a
  boolean on every cone and box.\<close>

theorem cone_intersect_bbox_defined:
  "cone_intersect_bbox cone bbox printing \<noteq> None"
proof -
  have ga: "gradient_ascent cone cca box_e bcv cddbc (AABBPolygon type) iMax jMax \<noteq> None"
    if "test_points cone box_e bcv cddbc cca (AABBPolygon type) 0 None
          = Scanned (Some (iMax, jMax))"
    for cca box_e bcv cddbc type iMax jMax
  proof -
    from test_points_index[OF that]
    have i: "iMax < length (AABBPolygon type)" and j: "jMax = AABBPolygon type ! iMax"
      by auto
    from polygon_edges[OF i] show ?thesis
      unfolding j by (intro gradient_ascent_Some) simp_all
  qed
  show ?thesis
    using ga
    by (auto simp: cone_intersect_bbox_def Let_def split: option.splits bool.splits scan.splits)
qed

end
